theory Spec2Isabelle
  imports Complex_Main
begin

section \<open>Python values\<close>

text \<open>
  The client of \<^verbatim>\<open>src/plynk_api/plynk.py\<close> handles parsed JSON: the value that
  \<^verbatim>\<open>response.json()\<close> returns. A JSON object is an association list (\<^verbatim>\<open>json.loads\<close>
  yields a dict, whose keys are distinct; lookup is \<open>map_of\<close>). Python tells \<^verbatim>\<open>int\<close>
  from \<^verbatim>\<open>float\<close>; the float type is the parameter \<open>'f\<close>, and what the interpreter does
  with floats is a parameter of the model too (\<open>runtime\<close> below).
\<close>

datatype 'f json =
    JNull
  | JBool bool
  | JInt int
  | JFloat 'f
  | JStr string
  | JArr "'f json list"
  | JObj "(string \<times> 'f json) list"

text \<open>
  Exceptions are values. \<open>KeyError\<close> and \<open>IndexError\<close> carry the text \<^verbatim>\<open>str(e)\<close>, which
  \<^verbatim>\<open>_fetch_account_number\<close> puts into its message. \<open>RequestException\<close> is what the
  transport raises when no response arrives (timeout, connection failure);
  \<open>HTTPError\<close> is what \<^verbatim>\<open>raise_for_status()\<close> raises, with the status code.
\<close>

datatype error =
    RuntimeError string
  | NotImplementedError string
  | HTTPError int
  | RequestException string
  | JSONDecodeError
  | KeyError string
  | IndexError string
  | TypeError
  | ValueError
  | OverflowError
  | AttributeError
  | OSError string

subsection \<open>Cookies and pickled objects\<close>

record cookie =
  cookie_name :: string
  cookie_value :: string
  cookie_domain :: string
  cookie_path :: string
  cookie_expires :: "int option"
  cookie_secure :: bool
  cookie_httponly :: bool

text \<open>
  A Python dict with its entries in insertion order. \<open>dict_set k v d\<close> is \<^verbatim>\<open>d[k] = v\<close>
  (a key already there keeps its place), \<open>dict_update d other\<close> is \<^verbatim>\<open>d.update(other)\<close>;
  lookup is \<open>map_of\<close>.
\<close>

fun dict_set :: "'k \<Rightarrow> 'v \<Rightarrow> ('k \<times> 'v) list \<Rightarrow> ('k \<times> 'v) list" where
  "dict_set k v [] = [(k, v)]"
| "dict_set k v ((k', v') # d) = (if k' = k then (k, v) # d else (k', v') # dict_set k v d)"

definition dict_update :: "('k \<times> 'v) list \<Rightarrow> ('k \<times> 'v) list \<Rightarrow> ('k \<times> 'v) list" where
  "dict_update d other = fold (\<lambda>(k, v). dict_set k v) other d"

text \<open>
  \<^verbatim>\<open>session.cookies.jar._cookies\<close>: a dict from domain to a dict from path to a dict
  from name to the cookie.
\<close>

type_synonym jar = "(string \<times> (string \<times> (string \<times> cookie) list) list) list"

text \<open>
  What \<^verbatim>\<open>pickle.load\<close> can hand back: a dict with string keys (whose values are a cookie
  mapping, or something \<^verbatim>\<open>dict.update\<close> rejects), or an object that is no dict.
\<close>

datatype pickled_value = PJar jar | PNotMapping

datatype pickled = PDict "(string \<times> pickled_value) list" | PNotDict

subsection \<open>The interpreter's builtins\<close>

text \<open>
  \<^verbatim>\<open>float\<close>, \<^verbatim>\<open>str\<close> and \<^verbatim>\<open>pickle\<close> belong to Python, not to this repository; the model
  takes them as parameters.
  \<^item> \<open>float_of_str s\<close> is \<^verbatim>\<open>float(s)\<close> for a string, \<open>None\<close> where it raises ValueError;
  \<^item> \<open>float_of_int n\<close> is \<^verbatim>\<open>float(n)\<close> for an int, \<open>None\<close> where it raises OverflowError;
  \<^item> \<open>float_zero\<close> is the literal \<^verbatim>\<open>0.0\<close>, \<open>float_truth x\<close> is \<^verbatim>\<open>bool(x)\<close>;
  \<^item> \<open>str_of v\<close> is \<^verbatim>\<open>str(v)\<close> for a value that is not a string;
  \<^item> \<open>pickle_dumps\<close> and \<open>pickle_loads\<close> write and read the bytes \<open>'b\<close> of a file
    (\<open>None\<close>: the bytes do not unpickle).
\<close>

record ('f, 'b) runtime =
  float_of_str :: "string \<Rightarrow> 'f option"
  float_of_int :: "int \<Rightarrow> 'f option"
  float_zero :: 'f
  float_truth :: "'f \<Rightarrow> bool"
  str_of :: "'f json \<Rightarrow> string"
  pickle_dumps :: "pickled \<Rightarrow> 'b"
  pickle_loads :: "'b \<Rightarrow> pickled option"

text \<open>\<^verbatim>\<open>str(v)\<close>, as an f-string applies it: a string is itself.\<close>

definition py_str :: "('f, 'b) runtime \<Rightarrow> 'f json \<Rightarrow> string" where
  "py_str rt v = (case v of JStr s \<Rightarrow> s | _ \<Rightarrow> str_of rt v)"

text \<open>\<^verbatim>\<open>bool(v)\<close>: the truth value an \<^verbatim>\<open>if\<close> or an \<^verbatim>\<open>and\<close> sees.\<close>

definition py_truthy :: "('f, 'b) runtime \<Rightarrow> 'f json \<Rightarrow> bool" where
  "py_truthy rt v =
     (case v of
        JNull \<Rightarrow> False
      | JBool b \<Rightarrow> b
      | JInt n \<Rightarrow> n \<noteq> 0
      | JFloat x \<Rightarrow> float_truth rt x
      | JStr s \<Rightarrow> s \<noteq> []
      | JArr xs \<Rightarrow> xs \<noteq> []
      | JObj kvs \<Rightarrow> kvs \<noteq> [])"

text \<open>\<^verbatim>\<open>repr(k)\<close> of a key without quotes or escapes, as in \<^verbatim>\<open>str(KeyError('user'))\<close>.\<close>

definition quoted :: "string \<Rightarrow> string" where
  "quoted k = CHR 0x27 # k @ [CHR 0x27]"

text \<open>
  \<^verbatim>\<open>v[k]\<close> with a string key: a dict looks the key up, a list or a string wants an
  integer, anything else is not subscriptable.
\<close>

definition getitem :: "'f json \<Rightarrow> string \<Rightarrow> error + 'f json" where
  "getitem v k =
     (case v of
        JObj kvs \<Rightarrow> (case map_of kvs k of None \<Rightarrow> Inl (KeyError (quoted k)) | Some x \<Rightarrow> Inr x)
      | _ \<Rightarrow> Inl TypeError)"

text \<open>
  \<^verbatim>\<open>v[0]\<close>: the first element of a list, the first character of a string; a dict has
  string keys only, so the key 0 is missing.
\<close>

definition getitem0 :: "'f json \<Rightarrow> error + 'f json" where
  "getitem0 v =
     (case v of
        JArr xs \<Rightarrow> (case xs of [] \<Rightarrow> Inl (IndexError ''list index out of range'') | x # _ \<Rightarrow> Inr x)
      | JStr s \<Rightarrow> (case s of [] \<Rightarrow> Inl (IndexError ''string index out of range'') | ch # _ \<Rightarrow> Inr (JStr [ch]))
      | JObj kvs \<Rightarrow> Inl (KeyError ''0'')
      | _ \<Rightarrow> Inl TypeError)"

datatype key = K string | I0

fun subscript :: "'f json \<Rightarrow> key \<Rightarrow> error + 'f json" where
  "subscript v (K k) = getitem v k"
| "subscript v I0 = getitem0 v"

text \<open>A chain \<^verbatim>\<open>v[k1][k2]...\<close>, left to right; the first failure is the one raised.\<close>

fun get_path :: "'f json \<Rightarrow> key list \<Rightarrow> error + 'f json" where
  "get_path v [] = Inr v"
| "get_path v (k # ks) = (case subscript v k of Inl e \<Rightarrow> Inl e | Inr v' \<Rightarrow> get_path v' ks)"

text \<open>\<^verbatim>\<open>v.get(k, default)\<close>: only a dict has the method.\<close>

definition dict_get :: "'f json \<Rightarrow> string \<Rightarrow> 'f json \<Rightarrow> error + 'f json" where
  "dict_get v k dflt =
     (case v of
        JObj kvs \<Rightarrow> (case map_of kvs k of None \<Rightarrow> Inr dflt | Some x \<Rightarrow> Inr x)
      | _ \<Rightarrow> Inl AttributeError)"

text \<open>
  \<^verbatim>\<open>k in v\<close> for a string \<open>k\<close>: a key of a dict, an element of a list, a substring of a
  string; the other values are not iterable.
\<close>

definition substring :: "string \<Rightarrow> string \<Rightarrow> bool" where
  "substring k s = list_ex (\<lambda>i. take (length k) (drop i s) = k) [0..<Suc (length s)]"

definition contains :: "'f json \<Rightarrow> string \<Rightarrow> error + bool" where
  "contains v k =
     (case v of
        JObj kvs \<Rightarrow> Inr (map_of kvs k \<noteq> None)
      | JArr xs \<Rightarrow> Inr (list_ex (\<lambda>x. x = JStr k) xs)
      | JStr s \<Rightarrow> Inr (substring k s)
      | _ \<Rightarrow> Inl TypeError)"

text \<open>
  \<^verbatim>\<open>float(v)\<close>: a string is parsed, a number converted (\<^verbatim>\<open>bool\<close> is an \<^verbatim>\<open>int\<close>), and
  \<^verbatim>\<open>None\<close>, a list or a dict is a TypeError.
\<close>

definition py_float :: "('f, 'b) runtime \<Rightarrow> 'f json \<Rightarrow> error + 'f" where
  "py_float rt v =
     (case v of
        JStr s \<Rightarrow> (case float_of_str rt s of None \<Rightarrow> Inl ValueError | Some x \<Rightarrow> Inr x)
      | JInt n \<Rightarrow> (case float_of_int rt n of None \<Rightarrow> Inl OverflowError | Some x \<Rightarrow> Inr x)
      | JBool b \<Rightarrow> (case float_of_int rt (if b then 1 else 0) of None \<Rightarrow> Inl OverflowError | Some x \<Rightarrow> Inr x)
      | JFloat x \<Rightarrow> Inr x
      | _ \<Rightarrow> Inl TypeError)"

text \<open>
  \<^verbatim>\<open>try: ... except (A, B) as e: raise ...\<close>: the handler says which exceptions it
  catches and what it raises instead; every other exception passes through.
\<close>

definition try_except :: "error + 'a \<Rightarrow> (error \<Rightarrow> error option) \<Rightarrow> error + 'a" where
  "try_except r handler =
     (case r of
        Inr x \<Rightarrow> Inr x
      | Inl e \<Rightarrow> (case handler e of None \<Rightarrow> Inl e | Some e' \<Rightarrow> Inl e'))"

section \<open>The world outside the client\<close>

subsection \<open>The endpoint resolver\<close>

text \<open>
  The module \<^verbatim>\<open>endpoints\<close> is imported by the client and is not part of the source
  given; its URLs and its header builder are parameters.
\<close>

record endpoints =
  authentication_url :: string
  login_url :: string
  details_url :: string
  balance_url :: string
  positions_url :: string
  stock_details_url :: string
  build_headers :: "string \<Rightarrow> bool \<Rightarrow> (string \<times> string) list"

subsection \<open>Sessions, requests and the server\<close>

text \<open>
  \<^verbatim>\<open>requests.Session(impersonate="safari_ios", timeout=10)\<close>, with the two attributes
  \<^verbatim>\<open>_set_session\<close> may assign (\<open>proxies = []\<close>: not assigned) and its cookie jar.
\<close>

record http_session =
  impersonate :: string
  timeout :: nat
  proxies :: "(string \<times> string) list"
  session_proxy_auth :: "(string \<times> string) option"
  cookies :: jar

datatype http_method = GET | POST

text \<open>
  A response as the client reads it: \<open>ok\<close> is the flag \<^verbatim>\<open>raise_for_status()\<close> tests,
  \<open>body\<close> is \<^verbatim>\<open>response.json()\<close> (\<open>None\<close>: the body is not JSON), \<open>set_cookies\<close> are
  the cookies the response stores in the session's jar.
\<close>

record 'f response =
  status_code :: int
  ok :: bool
  body :: "'f json option"
  set_cookies :: "cookie list"

datatype 'f http_result = Fails string | Reply "'f response"

text \<open>
  One entry of the log of requests issued. Besides the request it records the session
  object the request went out on, as it was at that moment (its jar is the source of the
  Cookie header), and the files on disk at that moment; claims about what happens
  before a request are stated on these two fields.
\<close>

record ('f, 'b) sent_request =
  req_method :: http_method
  url :: string
  headers :: "(string \<times> string) list"
  json_payload :: "'f json option"
  params :: "(string \<times> string) list"
  req_timeout :: nat
  via_session :: http_session
  disk :: "string \<rightharpoonup> 'b"

subsection \<open>The file system and the world\<close>

datatype os_call =
    OpenRead string | OpenWrite string | WriteBytes string | Remove string | Makedirs string

text \<open>
  \<open>files\<close> maps a path to the bytes of the file there, \<open>dirs\<close> are the directories,
  \<open>denied\<close> says which calls the operating system refuses (OSError), \<open>torn p\<close> are the
  bytes left in the file \<open>p\<close> when writing to it fails after \<^verbatim>\<open>open\<close> has truncated it,
  \<open>server\<close> answers the latest request of a log, \<open>sent\<close> is the log so far.
\<close>

record ('f, 'b) world =
  files :: "string \<rightharpoonup> 'b"
  dirs :: "string set"
  denied :: "os_call \<Rightarrow> bool"
  torn :: "string \<Rightarrow> 'b"
  server :: "('f, 'b) sent_request list \<Rightarrow> 'f http_result"
  sent :: "('f, 'b) sent_request list"

text \<open>
  A directory name with its trailing slashes removed (a name made of slashes only is
  the root and stays), and \<^verbatim>\<open>os.path.dirname\<close> on POSIX: what precedes the last slash.
\<close>

definition strip_slashes :: "string \<Rightarrow> string" where
  "strip_slashes p =
     (if list_all (\<lambda>ch. ch = CHR ''/'') p then p
      else rev (dropWhile (\<lambda>ch. ch = CHR ''/'') (rev p)))"

definition dirname :: "string \<Rightarrow> string" where
  "dirname p = strip_slashes (rev (dropWhile (\<lambda>ch. ch \<noteq> CHR ''/'') (rev p)))"

text \<open>Two spellings that differ in trailing slashes name the same directory.\<close>

definition is_dir :: "('f, 'b) world \<Rightarrow> string \<Rightarrow> bool" where
  "is_dir w p = (p \<noteq> [] \<and> strip_slashes p \<in> strip_slashes ` dirs w)"

definition os_exists :: "('f, 'b) world \<Rightarrow> string \<Rightarrow> bool" where
  "os_exists w p = (files w p \<noteq> None \<or> is_dir w p)"

definition os_remove :: "string \<Rightarrow> ('f, 'b) world \<Rightarrow> error + ('f, 'b) world" where
  "os_remove p w =
     (if files w p = None \<or> denied w (Remove p) then Inl (OSError p)
      else Inr (w\<lparr>files := (files w)(p := None)\<rparr>))"

text \<open>
  The directories on the way to \<open>p\<close>, \<open>p\<close> itself last: the prefixes of \<open>p\<close> that end
  before a slash. \<^verbatim>\<open>os.makedirs(p)\<close> creates those that are missing.
\<close>

fun dir_chain :: "string \<Rightarrow> string \<Rightarrow> string list" where
  "dir_chain acc [] = [rev acc]"
| "dir_chain acc (ch # rest) =
     (if ch = CHR ''/'' \<and> \<not> list_all (\<lambda>x. x = CHR ''/'') acc
      then rev acc # dir_chain (ch # acc) rest
      else dir_chain (ch # acc) rest)"

definition os_makedirs :: "string \<Rightarrow> ('f, 'b) world \<Rightarrow> error + ('f, 'b) world" where
  "os_makedirs p w =
     (if denied w (Makedirs p) then Inl (OSError p)
      else Inr (w\<lparr>dirs := set (dir_chain [] p) \<union> dirs w\<rparr>))"

text \<open>
  \<^verbatim>\<open>open(p, "wb")\<close> followed by writing the bytes \<open>b\<close>. \<^verbatim>\<open>open\<close> raises, and leaves
  the files as they were, when \<open>p\<close> is a directory, when the directory \<open>p\<close> lies in does not
  exist (a name without a slash lies in the current directory), or when the operating
  system refuses. Once \<^verbatim>\<open>open\<close> has succeeded the old content is gone: a write that
  fails leaves the torn bytes in the file.
\<close>

definition os_write ::
  "string \<Rightarrow> 'b \<Rightarrow> ('f, 'b) world \<Rightarrow> (error + unit) \<times> ('f, 'b) world" where
  "os_write p b w =
     (if is_dir w p \<or> (dirname p \<noteq> [] \<and> \<not> is_dir w (dirname p)) \<or> denied w (OpenWrite p)
      then (Inl (OSError p), w)
      else if denied w (WriteBytes p)
      then (Inl (OSError p), w\<lparr>files := (files w)(p \<mapsto> torn w p)\<rparr>)
      else (Inr (), w\<lparr>files := (files w)(p \<mapsto> b)\<rparr>))"

text \<open>\<^verbatim>\<open>open(p, "rb")\<close> followed by reading all the bytes.\<close>

definition os_read :: "string \<Rightarrow> ('f, 'b) world \<Rightarrow> error + 'b" where
  "os_read p w =
     (if denied w (OpenRead p) then Inl (OSError p)
      else (case files w p of None \<Rightarrow> Inl (OSError p) | Some b \<Rightarrow> Inr b))"

text \<open>\<^verbatim>\<open>os.path.join(a, b)\<close> on POSIX.\<close>

definition path_join :: "string \<Rightarrow> string \<Rightarrow> string" where
  "path_join a b =
     (if take 1 b = ''/'' then b
      else if a = [] \<or> take 1 (rev a) = ''/'' then a @ b
      else a @ ''/'' @ b)"

section \<open>The client\<close>

record 'f plynk =
  username :: string
  password :: string
  filename :: string
  path :: "string option"
  proxy_url :: "string option"
  proxy_auth :: "(string \<times> string) option"
  debug :: bool
  session :: http_session
  account_number :: "'f json option"
  logged_in :: bool

text \<open>
  The methods below keep the names of the source without the leading underscore.
  Each takes the client and the world and returns both, updated, with its result;
  a raised exception is \<open>Inl\<close>. The calls to \<^verbatim>\<open>logging\<close> are left out: no claim is about
  them, and none of them raises.
\<close>

subsection \<open>Transport\<close>

definition set_cookie :: "cookie \<Rightarrow> jar \<Rightarrow> jar" where
  "set_cookie ck j =
     (let by_path = (case map_of j (cookie_domain ck) of None \<Rightarrow> [] | Some m \<Rightarrow> m);
          by_name = (case map_of by_path (cookie_path ck) of None \<Rightarrow> [] | Some m \<Rightarrow> m)
      in dict_set (cookie_domain ck)
           (dict_set (cookie_path ck) (dict_set (cookie_name ck) ck by_name) by_path) j)"

text \<open>
  \<^verbatim>\<open>self.session.get(...)\<close> and \<^verbatim>\<open>self.session.post(...)\<close>: the request is logged, the
  server answers it; a response stores its cookies in the jar, a transport failure
  raises.
\<close>

definition log_entry ::
  "http_method \<Rightarrow> string \<Rightarrow> (string \<times> string) list \<Rightarrow> 'f json option \<Rightarrow> (string \<times> string) list \<Rightarrow>
   nat option \<Rightarrow> 'f plynk \<Rightarrow> ('f, 'b) world \<Rightarrow> ('f, 'b) sent_request" where
  "log_entry m u hs payload ps tmo c w =
     \<lparr>req_method = m, url = u, headers = hs, json_payload = payload, params = ps,
      req_timeout = (case tmo of None \<Rightarrow> timeout (session c) | Some t \<Rightarrow> t),
      via_session = session c, disk = files w\<rparr>"

definition request ::
  "http_method \<Rightarrow> string \<Rightarrow> (string \<times> string) list \<Rightarrow> 'f json option \<Rightarrow> (string \<times> string) list \<Rightarrow>
   nat option \<Rightarrow> 'f plynk \<Rightarrow> ('f, 'b) world \<Rightarrow> (error + 'f response) \<times> 'f plynk \<times> ('f, 'b) world" where
  "request m u hs payload ps tmo c w =
     (let w' = w\<lparr>sent := sent w @ [log_entry m u hs payload ps tmo c w]\<rparr>
      in case server w (sent w') of
           Fails msg \<Rightarrow> (Inl (RequestException msg), c, w')
         | Reply r \<Rightarrow>
             (Inr r,
              c\<lparr>session := (session c)\<lparr>cookies := fold set_cookie (set_cookies r) (cookies (session c))\<rparr>\<rparr>,
              w'))"

definition raise_for_status :: "'f response \<Rightarrow> error + unit" where
  "raise_for_status r = (if ok r then Inr () else Inl (HTTPError (status_code r)))"

definition json_of :: "'f response \<Rightarrow> error + 'f json" where
  "json_of r = (case body r of None \<Rightarrow> Inl JSONDecodeError | Some v \<Rightarrow> Inr v)"

subsection \<open>Session and credential cache (lines 46 to 89)\<close>

definition make_session :: "string option \<Rightarrow> (string \<times> string) option \<Rightarrow> http_session" where
  "make_session purl pauth =
     (let s = \<lparr>impersonate = ''safari_ios'', timeout = 10, proxies = [],
               session_proxy_auth = None, cookies = []\<rparr>
      in case purl of
           None \<Rightarrow> s
         | Some u \<Rightarrow>
             if u = [] then s
             else (case pauth of
                     None \<Rightarrow> s\<lparr>proxies := [(''http'', u), (''https'', u)]\<rparr>
                   | Some a \<Rightarrow> s\<lparr>proxies := [(''http'', u), (''https'', u)], session_proxy_auth := Some a\<rparr>))"

definition set_session :: "string option \<Rightarrow> (string \<times> string) option \<Rightarrow> 'f plynk \<Rightarrow> 'f plynk" where
  "set_session purl pauth c = c\<lparr>session := make_session purl pauth\<rparr>"

text \<open>\<^verbatim>\<open>os.path.join(self.path or '.', self.filename)\<close>\<close>

definition cred_path :: "'f plynk \<Rightarrow> string" where
  "cred_path c =
     path_join (case path c of None \<Rightarrow> ''.'' | Some p \<Rightarrow> if p = [] then ''.'' else p) (filename c)"

text \<open>
  \<^verbatim>\<open>_load_credentials\<close>: every exception between \<^verbatim>\<open>open\<close> and \<^verbatim>\<open>update\<close> is caught
  and logged, and the client is left as it was.
\<close>

definition load_credentials :: "('f, 'b) runtime \<Rightarrow> ('f, 'b) world \<Rightarrow> 'f plynk \<Rightarrow> 'f plynk" where
  "load_credentials rt w c =
     (if os_exists w (cred_path c) then
        (case os_read (cred_path c) w of
           Inl e \<Rightarrow> c
         | Inr b \<Rightarrow>
             (case pickle_loads rt b of
                None \<Rightarrow> c
              | Some PNotDict \<Rightarrow> c
              | Some (PDict kvs) \<Rightarrow>
                  (case map_of kvs ''cookies'' of
                     None \<Rightarrow> c
                   | Some PNotMapping \<Rightarrow> c
                   | Some (PJar j) \<Rightarrow> c\<lparr>session := (session c)\<lparr>cookies := dict_update (cookies (session c)) j\<rparr>\<rparr>)))
      else c)"

definition save_credentials ::
  "('f, 'b) runtime \<Rightarrow> 'f plynk \<Rightarrow> ('f, 'b) world \<Rightarrow> (error + unit) \<times> 'f plynk \<times> ('f, 'b) world" where
  "save_credentials rt c w =
     (case (case path c of
              None \<Rightarrow> Inr w
            | Some p \<Rightarrow> if p \<noteq> [] \<and> \<not> os_exists w p then os_makedirs p w else Inr w) of
        Inl e \<Rightarrow> (Inl e, c, w)
      | Inr w1 \<Rightarrow>
          (case os_write (cred_path c)
                  (pickle_dumps rt (PDict [(''cookies'', PJar (cookies (session c)))])) w1 of
             (Inl e, w2) \<Rightarrow> (Inl e, c, w2)
           | (Inr _, w2) \<Rightarrow> (Inr (), c, w2)))"

definition clear_credentials ::
  "'f plynk \<Rightarrow> ('f, 'b) world \<Rightarrow> (error + unit) \<times> 'f plynk \<times> ('f, 'b) world" where
  "clear_credentials c w =
     (if os_exists w (cred_path c) then
        (case os_remove (cred_path c) w of
           Inl e \<Rightarrow> (Inl e, c, w)
         | Inr w1 \<Rightarrow> (Inr (), set_session (proxy_url c) (proxy_auth c) c, w1))
      else (Inr (), set_session (proxy_url c) (proxy_auth c) c, w))"

text \<open>\<^verbatim>\<open>Plynk.__init__\<close> (lines 29 to 44).\<close>

definition Plynk ::
  "('f, 'b) runtime \<Rightarrow> string \<Rightarrow> string \<Rightarrow> string \<Rightarrow> string option \<Rightarrow> string option \<Rightarrow>
   (string \<times> string) option \<Rightarrow> bool \<Rightarrow> ('f, 'b) world \<Rightarrow> 'f plynk" where
  "Plynk rt user pw fname dir purl pauth dbg w =
     load_credentials rt w
       \<lparr>username = user, password = pw, filename = fname, path = dir, proxy_url = purl,
        proxy_auth = pauth, debug = dbg, session = make_session purl pauth,
        account_number = None, logged_in = False\<rparr>"

subsection \<open>Login (lines 91 to 183)\<close>

text \<open>
  \<^verbatim>\<open>_verify_login\<close>: a GET of the details endpoint with \<^verbatim>\<open>timeout=5\<close>; any exception
  is caught and answered \<open>False\<close>.
\<close>

definition verify_login ::
  "endpoints \<Rightarrow> 'f plynk \<Rightarrow> ('f, 'b) world \<Rightarrow> bool \<times> 'f plynk \<times> ('f, 'b) world" where
  "verify_login ep c w =
     (case request GET (details_url ep) (build_headers ep ''digital'' False) None [] (Some 5) c w of
        (Inl e, c', w') \<Rightarrow> (False, c', w')
      | (Inr r, c', w') \<Rightarrow> (status_code r = 200, c', w'))"

text \<open>Lines 161 to 167: the path into the details document, and its handler.\<close>

definition account_number_of :: "'f json \<Rightarrow> error + 'f json" where
  "account_number_of data =
     try_except
       (get_path data [K ''user'', K ''customer'', K ''accounts'', I0, K ''accountNumber''])
       (\<lambda>e. case e of
               KeyError t \<Rightarrow> Some (RuntimeError (''Could not parse account number from details response: '' @ t))
             | IndexError t \<Rightarrow> Some (RuntimeError (''Could not parse account number from details response: '' @ t))
             | _ \<Rightarrow> None)"

definition fetch_account_number ::
  "endpoints \<Rightarrow> 'f plynk \<Rightarrow> ('f, 'b) world \<Rightarrow> (error + 'f json) \<times> 'f plynk \<times> ('f, 'b) world" where
  "fetch_account_number ep c w =
     (case request GET (details_url ep) (build_headers ep ''digital'' False) None [] None c w of
        (Inl e, c', w') \<Rightarrow> (Inl e, c', w')
      | (Inr r, c', w') \<Rightarrow>
          (case raise_for_status r of
             Inl e \<Rightarrow> (Inl e, c', w')
           | Inr _ \<Rightarrow>
               (case json_of r of
                  Inl e \<Rightarrow> (Inl e, c', w')
                | Inr data \<Rightarrow> (account_number_of data, c', w'))))"

text \<open>The body of the password request (line 114).\<close>

definition auth_payload :: "'f plynk \<Rightarrow> 'f json" where
  "auth_payload c =
     JObj [(''username'', JStr (username c)), (''requestBaseInfo'', JNull),
           (''password'', JStr (password c))]"

text \<open>
  Line 132:
  \<^verbatim>\<open>poll_data.get("responseBaseInfo", {}).get("status", {}).get("message", "")\<close>
\<close>

definition session_status :: "'f json \<Rightarrow> error + 'f json" where
  "session_status poll_data =
     (case dict_get poll_data ''responseBaseInfo'' (JObj []) of
        Inl e \<Rightarrow> Inl e
      | Inr info \<Rightarrow>
          (case dict_get info ''status'' (JObj []) of
             Inl e \<Rightarrow> Inl e
           | Inr st \<Rightarrow> dict_get st ''message'' (JStr [])))"

text \<open>
  Lines 110 to 132 of \<^verbatim>\<open>login\<close>: the password request, the poll, and the status message
  read from the poll's answer.
\<close>

definition login_handshake ::
  "endpoints \<Rightarrow> 'f plynk \<Rightarrow> ('f, 'b) world \<Rightarrow> (error + 'f json) \<times> 'f plynk \<times> ('f, 'b) world" where
  "login_handshake ep c w =
     (case request POST (authentication_url ep) (build_headers ep ''ecaap'' False)
             (Some (auth_payload c)) [] None c w of
        (Inl e, c1, w1) \<Rightarrow> (Inl e, c1, w1)
      | (Inr r, c1, w1) \<Rightarrow>
          (case raise_for_status r of
             Inl e \<Rightarrow> (Inl e, c1, w1)
           | Inr _ \<Rightarrow>
               (case request POST (login_url ep) (build_headers ep ''ecaap'' True)
                       (Some (JObj [])) [] None c1 w1 of
                  (Inl e, c2, w2) \<Rightarrow> (Inl e, c2, w2)
                | (Inr poll_response, c2, w2) \<Rightarrow>
                    (case raise_for_status poll_response of
                       Inl e \<Rightarrow> (Inl e, c2, w2)
                     | Inr _ \<Rightarrow>
                         (case json_of poll_response of
                            Inl e \<Rightarrow> (Inl e, c2, w2)
                          | Inr poll_data \<Rightarrow> (session_status poll_data, c2, w2))))))"

text \<open>Lines 134 to 149 of \<^verbatim>\<open>login\<close>: the branch on the status message.\<close>

definition login_branch ::
  "('f, 'b) runtime \<Rightarrow> endpoints \<Rightarrow> 'f json \<Rightarrow> 'f plynk \<Rightarrow> ('f, 'b) world \<Rightarrow>
   (error + bool) \<times> 'f plynk \<times> ('f, 'b) world" where
  "login_branch rt ep status c w =
     (if status = JStr ''Authentication Not Completed'' then
        (Inl (NotImplementedError ''OTP flow is defined but needs to be triggered to be tested.''), c, w)
      else if status \<noteq> JStr ''Session Created'' then
        (Inl (RuntimeError (''Login failed with unexpected status: '' @ py_str rt status)), c, w)
      else
        (case fetch_account_number ep (c\<lparr>logged_in := True\<rparr>) w of
           (Inl e, c1, w1) \<Rightarrow> (Inl e, c1, w1)
         | (Inr a, c1, w1) \<Rightarrow>
             (case save_credentials rt (c1\<lparr>account_number := Some a\<rparr>) w1 of
                (Inl e, c2, w2) \<Rightarrow> (Inl e, c2, w2)
              | (Inr _, c2, w2) \<Rightarrow> (Inr True, c2, w2))))"

text \<open>
  \<^verbatim>\<open>login\<close>. The parameter \<^verbatim>\<open>otp_callback\<close> is never read by the source and is left
  out.
\<close>

definition login ::
  "('f, 'b) runtime \<Rightarrow> endpoints \<Rightarrow> 'f plynk \<Rightarrow> ('f, 'b) world \<Rightarrow>
   (error + bool) \<times> 'f plynk \<times> ('f, 'b) world" where
  "login rt ep c w =
     (case verify_login ep c w of
        (True, c1, w1) \<Rightarrow>
          (case fetch_account_number ep (c1\<lparr>logged_in := True\<rparr>) w1 of
             (Inl e, c2, w2) \<Rightarrow> (Inl e, c2, w2)
           | (Inr a, c2, w2) \<Rightarrow> (Inr True, c2\<lparr>account_number := Some a\<rparr>, w2))
      | (False, c1, w1) \<Rightarrow>
          (case clear_credentials c1 w1 of
             (Inl e, c2, w2) \<Rightarrow> (Inl e, c2, w2)
           | (Inr _, c2, w2) \<Rightarrow>
               (case login_handshake ep c2 w2 of
                  (Inl e, c3, w3) \<Rightarrow> (Inl e, c3, w3)
                | (Inr status, c3, w3) \<Rightarrow> login_branch rt ep status c3 w3)))"

subsection \<open>Data accessors (lines 185 to 223)\<close>

text \<open>The decorator \<^verbatim>\<open>check_login\<close> (lines 20 to 25).\<close>

definition check_login ::
  "('f plynk \<Rightarrow> 'w \<Rightarrow> (error + 'a) \<times> 'f plynk \<times> 'w) \<Rightarrow> 'f plynk \<Rightarrow> 'w \<Rightarrow> (error + 'a) \<times> 'f plynk \<times> 'w" where
  "check_login func c w =
     (if \<not> logged_in c then (Inl (RuntimeError ''Plynk not logged in. Please login first.''), c, w)
      else func c w)"

text \<open>The payload of lines 187 and 200; the account number goes through an f-string.\<close>

definition accounts_payload :: "('f, 'b) runtime \<Rightarrow> 'f json \<Rightarrow> 'f json" where
  "accounts_payload rt acct =
     JObj [(''accounts'',
            JArr [JObj [(''accountNumber'', JStr (py_str rt acct)), (''registrationType'', JStr ''I'')]])]"

text \<open>Lines 191 to 196: what \<^verbatim>\<open>get_account_total\<close> makes of the parsed body.\<close>

definition account_total_of :: "('f, 'b) runtime \<Rightarrow> 'f json \<Rightarrow> error + 'f" where
  "account_total_of rt response_json =
     (case contains response_json ''accounts'' of
        Inl e \<Rightarrow> Inl e
      | Inr False \<Rightarrow> Inr (float_zero rt)
      | Inr True \<Rightarrow>
          (case getitem response_json ''accounts'' of
             Inl e \<Rightarrow> Inl e
           | Inr accounts \<Rightarrow>
               if py_truthy rt accounts then
                 try_except
                   (case get_path response_json [K ''accounts'', I0, K ''balanceSummary'', K ''totalAssets''] of
                      Inl e \<Rightarrow> Inl e
                    | Inr v \<Rightarrow> py_float rt v)
                   (\<lambda>e. case e of
                           KeyError _ \<Rightarrow> Some (RuntimeError ''Unable to parse account total value.'')
                         | ValueError \<Rightarrow> Some (RuntimeError ''Unable to parse account total value.'')
                         | IndexError _ \<Rightarrow> Some (RuntimeError ''Unable to parse account total value.'')
                         | _ \<Rightarrow> None)
               else Inr (float_zero rt)))"

definition get_account_total ::
  "('f, 'b) runtime \<Rightarrow> endpoints \<Rightarrow> 'f json \<Rightarrow> 'f plynk \<Rightarrow> ('f, 'b) world \<Rightarrow>
   (error + 'f) \<times> 'f plynk \<times> ('f, 'b) world" where
  "get_account_total rt ep acct =
     check_login (\<lambda>c w.
       case request POST (balance_url ep) (build_headers ep ''digital'' False)
              (Some (accounts_payload rt acct)) [] None c w of
         (Inl e, c', w') \<Rightarrow> (Inl e, c', w')
       | (Inr r, c', w') \<Rightarrow>
           (case raise_for_status r of
              Inl e \<Rightarrow> (Inl e, c', w')
            | Inr _ \<Rightarrow>
                (case json_of r of
                   Inl e \<Rightarrow> (Inl e, c', w')
                 | Inr v \<Rightarrow> (account_total_of rt v, c', w'))))"

definition get_positions ::
  "('f, 'b) runtime \<Rightarrow> endpoints \<Rightarrow> 'f json \<Rightarrow> 'f plynk \<Rightarrow> ('f, 'b) world \<Rightarrow>
   (error + 'f json) \<times> 'f plynk \<times> ('f, 'b) world" where
  "get_positions rt ep acct =
     check_login (\<lambda>c w.
       case request POST (positions_url ep) (build_headers ep ''digital'' False)
              (Some (accounts_payload rt acct)) [] None c w of
         (Inl e, c', w') \<Rightarrow> (Inl e, c', w')
       | (Inr r, c', w') \<Rightarrow>
           (case raise_for_status r of
              Inl e \<Rightarrow> (Inl e, c', w')
            | Inr _ \<Rightarrow> (json_of r, c', w')))"

text \<open>
  Line 208:
  \<^verbatim>\<open>result["accounts"][0].get("positionsSummary", {}).get("positions", [])\<close>
\<close>

definition holdings_of :: "'f json \<Rightarrow> error + 'f json" where
  "holdings_of result =
     (case get_path result [K ''accounts'', I0] of
        Inl e \<Rightarrow> Inl e
      | Inr account \<Rightarrow>
          (case dict_get account ''positionsSummary'' (JObj []) of
             Inl e \<Rightarrow> Inl e
           | Inr summary \<Rightarrow> dict_get summary ''positions'' (JArr [])))"

definition get_account_holdings ::
  "('f, 'b) runtime \<Rightarrow> endpoints \<Rightarrow> 'f json \<Rightarrow> 'f plynk \<Rightarrow> ('f, 'b) world \<Rightarrow>
   (error + 'f json) \<times> 'f plynk \<times> ('f, 'b) world" where
  "get_account_holdings rt ep acct =
     check_login (\<lambda>c w.
       case get_positions rt ep acct c w of
         (Inl e, c', w') \<Rightarrow> (Inl e, c', w')
       | (Inr result, c', w') \<Rightarrow> (holdings_of result, c', w'))"

definition get_stock_details ::
  "endpoints \<Rightarrow> string \<Rightarrow> 'f plynk \<Rightarrow> ('f, 'b) world \<Rightarrow>
   (error + 'f json) \<times> 'f plynk \<times> ('f, 'b) world" where
  "get_stock_details ep ticker =
     check_login (\<lambda>c w.
       case request GET (stock_details_url ep) (build_headers ep ''digital'' False) None
              [(''quoteType'', ''R''), (''symbol'', ticker), (''proIndicator'', ''N''), (''contextLevel'', ''2'')]
              None c w of
         (Inl e, c', w') \<Rightarrow> (Inl e, c', w')
       | (Inr r, c', w') \<Rightarrow>
           (case raise_for_status r of
              Inl e \<Rightarrow> (Inl e, c', w')
            | Inr _ \<Rightarrow> (json_of r, c', w')))"

text \<open>Lines 213 to 216: the price read from the details document, and its handler.\<close>

definition stock_price_of :: "('f, 'b) runtime \<Rightarrow> 'f json \<Rightarrow> error + 'f" where
  "stock_price_of rt response =
     try_except
       (case get_path response [K ''securityDetails'', K ''lastPrice''] of
          Inl e \<Rightarrow> Inl e
        | Inr v \<Rightarrow> py_float rt v)
       (\<lambda>e. case e of
               KeyError _ \<Rightarrow> Some (RuntimeError ''Unable to get float value for stock price.'')
             | ValueError \<Rightarrow> Some (RuntimeError ''Unable to get float value for stock price.'')
             | _ \<Rightarrow> None)"

definition get_stock_price ::
  "('f, 'b) runtime \<Rightarrow> endpoints \<Rightarrow> string \<Rightarrow> 'f plynk \<Rightarrow> ('f, 'b) world \<Rightarrow>
   (error + 'f) \<times> 'f plynk \<times> ('f, 'b) world" where
  "get_stock_price rt ep ticker =
     check_login (\<lambda>c w.
       case get_stock_details ep ticker c w of
         (Inl e, c', w') \<Rightarrow> (Inl e, c', w')
       | (Inr response, c', w') \<Rightarrow> (stock_price_of rt response, c', w'))"

section \<open>Sample runs\<close>

text \<open>
  Concrete parameters on which the model runs: a stand-in for the interpreter whose
  floats are rationals, whose \<^verbatim>\<open>float\<close> reads unsigned decimal numerals, and whose
  pickle keeps the object as it is; made-up endpoints; a file system that refuses
  nothing; and a server that answers the i-th request with the i-th entry of a script.
\<close>

definition digits_value :: "string \<Rightarrow> nat option" where
  "digits_value s =
     (if s \<noteq> [] \<and> list_all (\<lambda>ch. 48 \<le> (of_char ch :: nat) \<and> (of_char ch :: nat) \<le> 57) s
      then Some (foldl (\<lambda>a ch. 10 * a + (of_char ch - 48)) 0 s)
      else None)"

definition decimal_of_str :: "string \<Rightarrow> rat option" where
  "decimal_of_str s =
     (case dropWhile (\<lambda>ch. ch \<noteq> CHR ''.'') s of
        [] \<Rightarrow> map_option of_nat (digits_value s)
      | _ # fraction \<Rightarrow>
          (case (digits_value (takeWhile (\<lambda>ch. ch \<noteq> CHR ''.'') s), digits_value fraction) of
             (Some a, Some b) \<Rightarrow> Some (of_nat a + of_nat b / 10 ^ length fraction)
           | _ \<Rightarrow> None))"

definition sample_runtime :: "(rat, pickled) runtime" where
  "sample_runtime =
     \<lparr>float_of_str = decimal_of_str,
      float_of_int = (\<lambda>n. Some (of_int n)),
      float_zero = 0,
      float_truth = (\<lambda>x. x \<noteq> 0),
      str_of = (\<lambda>v. case v of JNull \<Rightarrow> ''None'' | JBool True \<Rightarrow> ''True'' | JBool False \<Rightarrow> ''False''
                      | _ \<Rightarrow> ''...''),
      pickle_dumps = (\<lambda>obj. obj),
      pickle_loads = Some\<rparr>"

definition sample_endpoints :: endpoints where
  "sample_endpoints =
     \<lparr>authentication_url = ''https://ecaap.test/authentication'',
      login_url = ''https://ecaap.test/login'',
      details_url = ''https://digital.test/details'',
      balance_url = ''https://digital.test/balance'',
      positions_url = ''https://digital.test/positions'',
      stock_details_url = ''https://digital.test/stock'',
      build_headers = (\<lambda>dom poll. [(''X-Domain'', dom), (''X-Poll'', if poll then ''1'' else ''0'')])\<rparr>"

definition answer :: "int \<Rightarrow> rat json \<Rightarrow> rat http_result" where
  "answer code v = Reply \<lparr>status_code = code, ok = (200 \<le> code \<and> code < 400), body = Some v, set_cookies = []\<rparr>"

definition scripted :: "rat http_result list \<Rightarrow> (rat, pickled) sent_request list \<Rightarrow> rat http_result" where
  "scripted script history =
     (if history \<noteq> [] \<and> length history \<le> length script then script ! (length history - 1)
      else Fails ''no answer'')"

definition sample_world :: "rat http_result list \<Rightarrow> (rat, pickled) world" where
  "sample_world script =
     \<lparr>files = Map.empty, dirs = {''.''}, denied = (\<lambda>call. False), torn = (\<lambda>p. PNotDict),
      server = scripted script, sent = []\<rparr>"

text \<open>A client as the constructor leaves it, and the same client after a login.\<close>

definition sample_client :: "rat plynk" where
  "sample_client =
     Plynk sample_runtime ''alice'' ''secret'' ''plynk_credentials.pkl'' None None None False
       (sample_world [])"

definition sample_client_in :: "rat plynk" where
  "sample_client_in = sample_client\<lparr>logged_in := True, account_number := Some (JStr ''A1'')\<rparr>"

text \<open>Server answers used by the sample runs.\<close>

definition details_ok :: "rat json" where
  "details_ok =
     JObj [(''user'', JObj [(''customer'', JObj [(''accounts'',
             JArr [JObj [(''accountNumber'', JStr ''A1'')]])])])]"

definition poll_reply :: "string \<Rightarrow> rat json" where
  "poll_reply msg = JObj [(''responseBaseInfo'', JObj [(''status'', JObj [(''message'', JStr msg)])])]"

text \<open>The probe is answered 200 and the details document has an account number.\<close>

definition script_reuse :: "rat http_result list" where
  "script_reuse = [answer 200 details_ok, answer 200 details_ok]"

text \<open>The probe is answered 200, but the details document has no \<^verbatim>\<open>user\<close> key.\<close>

definition script_reuse_fetch_fails :: "rat http_result list" where
  "script_reuse_fetch_fails = [answer 200 (JObj []), answer 200 (JObj [])]"

text \<open>
  The probe is answered 401; the password request and the poll are answered 200, the
  poll with the given status message; the details request is answered with the given
  document.
\<close>

definition script_fresh :: "string \<Rightarrow> rat json \<Rightarrow> rat http_result list" where
  "script_fresh msg details =
     [answer 401 (JObj []), answer 200 (JObj []), answer 200 (poll_reply msg), answer 200 details]"

text \<open>A cookie, a jar holding it, and a world whose cache file holds that jar.\<close>

definition sample_cookie :: cookie where
  "sample_cookie =
     \<lparr>cookie_name = ''SESSION'', cookie_value = ''abc123'', cookie_domain = ''.digital.test'',
      cookie_path = ''/'', cookie_expires = Some 1893456000, cookie_secure = True,
      cookie_httponly = True\<rparr>"

definition sample_jar :: jar where
  "sample_jar = set_cookie sample_cookie []"

definition cached_world :: "rat http_result list \<Rightarrow> (rat, pickled) world" where
  "cached_world script =
     (sample_world script)\<lparr>files := [''./plynk_credentials.pkl'' \<mapsto> PDict [(''cookies'', PJar sample_jar)]]\<rparr>"

definition cached_client :: "rat plynk" where
  "cached_client =
     Plynk sample_runtime ''alice'' ''secret'' ''plynk_credentials.pkl'' None None None False
       (cached_world [])"

subsection \<open>A pickle that writes text\<close>

text \<open>
  A second stand-in for \<^verbatim>\<open>pickle\<close>, whose files are strings: an object is flattened into
  a list of fields, and each field is written with its semicolons and backslashes
  escaped and a semicolon after it. A dict is its size in strokes followed by its
  entries, key first.
\<close>

definition escape :: "string \<Rightarrow> string" where
  "escape s = concat (map (\<lambda>ch. if ch = CHR '';'' \<or> ch = CHR 0x5C then [CHR 0x5C, ch] else [ch]) s)"

definition join_fields :: "string list \<Rightarrow> string" where
  "join_fields ts = concat (map (\<lambda>t. escape t @ '';'') ts)"

fun split_fields :: "string \<Rightarrow> string \<Rightarrow> string list option" where
  "split_fields acc [] = (if acc = [] then Some [] else None)"
| "split_fields acc (ch # rest) =
     (if ch = CHR '';'' then map_option ((#) (rev acc)) (split_fields [] rest)
      else if ch = CHR 0x5C then (case rest of [] \<Rightarrow> None | e # rest' \<Rightarrow> split_fields (e # acc) rest')
      else split_fields (ch # acc) rest)"

function digits_of :: "nat \<Rightarrow> string" where
  "digits_of n =
     (if n < 10 then [''0123456789'' ! n]
      else digits_of (n div 10) @ [''0123456789'' ! (n mod 10)])"
  by pat_completeness auto
termination
  by (relation "measure id") auto

declare digits_of.simps [simp del]

definition enc_expires :: "int option \<Rightarrow> string" where
  "enc_expires e =
     (case e of
        None \<Rightarrow> ''None''
      | Some i \<Rightarrow> if i < 0 then ''-'' @ digits_of (nat (- i)) else digits_of (nat i))"

definition dec_expires :: "string \<Rightarrow> int option option" where
  "dec_expires t =
     (if t = ''None'' then Some None
      else if take 1 t = ''-'' then map_option (\<lambda>n. Some (- int n)) (digits_value (drop 1 t))
      else map_option (\<lambda>n. Some (int n)) (digits_value t))"

definition enc_bool :: "bool \<Rightarrow> string" where
  "enc_bool b = (if b then ''T'' else ''F'')"

definition dec_bool :: "string \<Rightarrow> bool option" where
  "dec_bool t = (if t = ''T'' then Some True else if t = ''F'' then Some False else None)"

definition enc_cookie :: "cookie \<Rightarrow> string list" where
  "enc_cookie ck =
     [cookie_name ck, cookie_value ck, cookie_domain ck, cookie_path ck,
      enc_expires (cookie_expires ck), enc_bool (cookie_secure ck), enc_bool (cookie_httponly ck)]"

definition dec_cookie :: "string list \<Rightarrow> (cookie \<times> string list) option" where
  "dec_cookie ts =
     (case ts of
        n # v # d # p # e # s # h # rest \<Rightarrow>
          (case (dec_expires e, dec_bool s, dec_bool h) of
             (Some e', Some s', Some h') \<Rightarrow>
               Some (\<lparr>cookie_name = n, cookie_value = v, cookie_domain = d, cookie_path = p,
                      cookie_expires = e', cookie_secure = s', cookie_httponly = h'\<rparr>, rest)
           | _ \<Rightarrow> None)
      | _ \<Rightarrow> None)"

definition enc_dict :: "('v \<Rightarrow> string list) \<Rightarrow> (string \<times> 'v) list \<Rightarrow> string list" where
  "enc_dict f d = replicate (length d) CHR ''1'' # concat (map (\<lambda>(k, v). k # f v) d)"

fun dec_entries ::
  "nat \<Rightarrow> (string list \<Rightarrow> ('v \<times> string list) option) \<Rightarrow> string list \<Rightarrow>
   ((string \<times> 'v) list \<times> string list) option" where
  "dec_entries 0 f ts = Some ([], ts)"
| "dec_entries (Suc n) f ts =
     (case ts of
        [] \<Rightarrow> None
      | k # ts1 \<Rightarrow>
          (case f ts1 of
             None \<Rightarrow> None
           | Some (v, ts2) \<Rightarrow>
               (case dec_entries n f ts2 of
                  None \<Rightarrow> None
                | Some (d, ts3) \<Rightarrow> Some ((k, v) # d, ts3))))"

definition dec_dict ::
  "(string list \<Rightarrow> ('v \<times> string list) option) \<Rightarrow> string list \<Rightarrow>
   ((string \<times> 'v) list \<times> string list) option" where
  "dec_dict f ts =
     (case ts of
        [] \<Rightarrow> None
      | t # ts' \<Rightarrow> if list_all (\<lambda>ch. ch = CHR ''1'') t then dec_entries (length t) f ts' else None)"

definition enc_value :: "pickled_value \<Rightarrow> string list" where
  "enc_value v =
     (case v of
        PJar j \<Rightarrow> ''jar'' # enc_dict (enc_dict (enc_dict enc_cookie)) j
      | PNotMapping \<Rightarrow> [''other''])"

definition dec_value :: "string list \<Rightarrow> (pickled_value \<times> string list) option" where
  "dec_value ts =
     (case ts of
        [] \<Rightarrow> None
      | t # ts' \<Rightarrow>
          if t = ''jar'' then map_option (\<lambda>(j, rest). (PJar j, rest)) (dec_dict (dec_dict (dec_dict dec_cookie)) ts')
          else if t = ''other'' then Some (PNotMapping, ts')
          else None)"

definition text_dumps :: "pickled \<Rightarrow> string" where
  "text_dumps obj =
     join_fields (case obj of PDict d \<Rightarrow> ''dict'' # enc_dict enc_value d | PNotDict \<Rightarrow> [''object''])"

definition text_loads :: "string \<Rightarrow> pickled option" where
  "text_loads b =
     (case split_fields [] b of
        None \<Rightarrow> None
      | Some [] \<Rightarrow> None
      | Some (t # ts) \<Rightarrow>
          if t = ''dict'' then
            (case dec_dict dec_value ts of Some (d, []) \<Rightarrow> Some (PDict d) | _ \<Rightarrow> None)
          else if t = ''object'' \<and> ts = [] then Some PNotDict
          else None)"

definition text_runtime :: "(rat, string) runtime" where
  "text_runtime =
     \<lparr>float_of_str = decimal_of_str,
      float_of_int = (\<lambda>n. Some (of_int n)),
      float_zero = 0,
      float_truth = (\<lambda>x. x \<noteq> 0),
      str_of = str_of sample_runtime,
      pickle_dumps = text_dumps,
      pickle_loads = text_loads\<rparr>"

definition text_world :: "(rat, string) world" where
  "text_world =
     \<lparr>files = Map.empty, dirs = {''.''}, denied = (\<lambda>call. False), torn = (\<lambda>p. []),
      server = (\<lambda>history. Fails ''no answer''), sent = []\<rparr>"

section \<open>What each step changes\<close>

lemma sample_client_simps:
  "sample_client = \<lparr>username = ''alice'', password = ''secret'', filename = ''plynk_credentials.pkl'',
      path = None, proxy_url = None, proxy_auth = None, debug = False,
      session = \<lparr>impersonate = ''safari_ios'', timeout = 10, proxies = [], session_proxy_auth = None,
                  cookies = []\<rparr>,
      account_number = None, logged_in = False\<rparr>"
  by (simp add: sample_client_def Plynk_def load_credentials_def os_exists_def is_dir_def
        strip_slashes_def sample_world_def cred_path_def path_join_def make_session_def)

lemma request_sent:
  "request m u hs p ps t c w = (r, c', w') \<Longrightarrow> sent w' = sent w @ [log_entry m u hs p ps t c w]"
  by (auto simp: request_def Let_def split: http_result.splits)

lemma request_world:
  "request m u hs p ps t c w = (r, c', w') \<Longrightarrow>
   files w' = files w \<and> dirs w' = dirs w \<and> denied w' = denied w \<and> server w' = server w"
  by (auto simp: request_def Let_def split: http_result.splits)

lemma request_fields:
  "request m u hs p ps t c w = (r, c', w') \<Longrightarrow>
   logged_in c' = logged_in c \<and> account_number c' = account_number c \<and> filename c' = filename c
   \<and> path c' = path c \<and> proxy_url c' = proxy_url c \<and> proxy_auth c' = proxy_auth c
   \<and> username c' = username c \<and> password c' = password c"
  by (auto simp: request_def Let_def split: http_result.splits)

lemma cred_path_cong:
  "filename c' = filename c \<Longrightarrow> path c' = path c \<Longrightarrow> cred_path c' = cred_path c"
  by (simp add: cred_path_def)

lemma log_entry_logged_in:
  "log_entry m u hs p ps t (c\<lparr>logged_in := b\<rparr>) w = log_entry m u hs p ps t c w"
  by (cases t) (simp_all add: log_entry_def)

lemma request_logged_in:
  "request m u hs p ps t (c\<lparr>logged_in := b\<rparr>) w =
     (case request m u hs p ps t c w of (r, c', w') \<Rightarrow> (r, c'\<lparr>logged_in := b\<rparr>, w'))"
  by (simp add: request_def Let_def log_entry_logged_in split: http_result.splits)

lemma verify_login_effect:
  assumes "verify_login ep c w = (b, c1, w1)"
  shows "sent w1 = sent w @ [log_entry GET (details_url ep) (build_headers ep ''digital'' False) None [] (Some 5) c w]"
    and "files w1 = files w" and "dirs w1 = dirs w" and "denied w1 = denied w" and "server w1 = server w"
    and "logged_in c1 = logged_in c" and "account_number c1 = account_number c"
    and "filename c1 = filename c" and "path c1 = path c" and "proxy_url c1 = proxy_url c"
    and "proxy_auth c1 = proxy_auth c" and "username c1 = username c" and "password c1 = password c"
  using assms
  by (auto simp: verify_login_def split: prod.splits sum.splits
      dest: request_sent request_world request_fields)

lemma fetch_account_number_effect:
  assumes "fetch_account_number ep c w = (r, c1, w1)"
  shows "sent w1 = sent w @ [log_entry GET (details_url ep) (build_headers ep ''digital'' False) None [] None c w]"
    and "files w1 = files w" and "dirs w1 = dirs w" and "denied w1 = denied w" and "server w1 = server w"
    and "logged_in c1 = logged_in c" and "account_number c1 = account_number c"
    and "filename c1 = filename c" and "path c1 = path c" and "proxy_url c1 = proxy_url c"
    and "proxy_auth c1 = proxy_auth c" and "username c1 = username c" and "password c1 = password c"
  using assms
  by (auto simp: fetch_account_number_def split: prod.splits sum.splits
      dest: request_sent request_world request_fields)

lemma fetch_account_number_logged_in:
  "fetch_account_number ep (c\<lparr>logged_in := b\<rparr>) w =
     (case fetch_account_number ep c w of (r, c', w') \<Rightarrow> (r, c'\<lparr>logged_in := b\<rparr>, w'))"
  by (auto simp: fetch_account_number_def request_logged_in split: prod.splits sum.splits)

lemma request_effect:
  "request m u hs p ps t c w = (r, c', w') \<Longrightarrow>
   sent w' = sent w @ [log_entry m u hs p ps t c w]
   \<and> files w' = files w \<and> dirs w' = dirs w \<and> denied w' = denied w \<and> server w' = server w
   \<and> logged_in c' = logged_in c \<and> account_number c' = account_number c \<and> filename c' = filename c
   \<and> path c' = path c \<and> proxy_url c' = proxy_url c \<and> proxy_auth c' = proxy_auth c
   \<and> username c' = username c \<and> password c' = password c"
  by (auto simp: request_def Let_def split: http_result.splits)

lemma clear_credentials_ok:
  assumes "clear_credentials c w = (Inr u, c2, w2)"
  shows "files w2 (cred_path c) = None" and "sent w2 = sent w" and "dirs w2 = dirs w"
    and "denied w2 = denied w" and "server w2 = server w"
    and "c2 = c\<lparr>session := make_session (proxy_url c) (proxy_auth c)\<rparr>"
  using assms
  by (auto simp: clear_credentials_def os_exists_def os_remove_def set_session_def
      split: if_splits sum.splits)

lemma clear_credentials_fails:
  "clear_credentials c w = (Inl e, c2, w2) \<Longrightarrow> c2 = c \<and> w2 = w"
  by (auto simp: clear_credentials_def split: if_splits sum.splits)

lemma cookies_make_session: "cookies (make_session purl pauth) = []"
  by (simp add: make_session_def Let_def split: option.splits)

lemma save_credentials_effect:
  assumes "save_credentials rt c w = (r, c', w')"
  shows "c' = c" and "sent w' = sent w" and "server w' = server w" and "denied w' = denied w"
    and "r = Inl e \<Longrightarrow>
           files w' = files w \<or> files w' = (files w)(cred_path c \<mapsto> torn w (cred_path c))"
    and "r = Inr u \<Longrightarrow>
           files w' = (files w)(cred_path c \<mapsto> pickle_dumps rt (PDict [(''cookies'', PJar (cookies (session c)))]))"
  using assms
  by (auto simp: save_credentials_def os_makedirs_def os_write_def
      split: option.splits if_splits sum.splits prod.splits)

lemma dict_set_fresh: "k \<notin> fst ` set d \<Longrightarrow> dict_set k v d = d @ [(k, v)]"
  by (induction d) auto

lemma dict_update_distinct:
  "distinct (map fst (d @ other)) \<Longrightarrow> dict_update d other = d @ other"
proof (induction other arbitrary: d)
  case Nil
  then show ?case by (simp add: dict_update_def)
next
  case (Cons kv other)
  obtain k v where kv: "kv = (k, v)" by (cases kv)
  have fresh: "k \<notin> fst ` set d" using Cons.prems kv by auto
  have "distinct (map fst ((d @ [(k, v)]) @ other))" using Cons.prems kv by simp
  then have "dict_update (d @ [(k, v)]) other = (d @ [(k, v)]) @ other" by (rule Cons.IH)
  then show ?case using fresh kv by (simp add: dict_update_def dict_set_fresh)
qed

lemma sample_jar_simps:
  "sample_jar = [(''.digital.test'', [(''/'', [(''SESSION'', sample_cookie)])])]"
  by (simp add: sample_jar_def set_cookie_def sample_cookie_def)

lemma dict_update_sample_jar: "dict_update [] sample_jar = sample_jar"
  by (simp add: sample_jar_simps dict_update_def)

lemma login_handshake_effect:
  assumes "login_handshake ep c w = (r, c', w')"
  shows "files w' = files w" and "dirs w' = dirs w" and "denied w' = denied w" and "server w' = server w"
    and "logged_in c' = logged_in c" and "account_number c' = account_number c"
    and "filename c' = filename c" and "path c' = path c" and "proxy_url c' = proxy_url c"
    and "proxy_auth c' = proxy_auth c" and "username c' = username c" and "password c' = password c"
  using assms
  by (auto simp: login_handshake_def split: prod.splits sum.splits dest!: request_effect)

lemma login_handshake_sent:
  assumes "login_handshake ep c w = (r, c', w')"
  shows "\<exists>rest. sent w' = sent w @ log_entry POST (authentication_url ep) (build_headers ep ''ecaap'' False)
                                     (Some (auth_payload c)) [] None c w # rest
          \<and> (\<forall>e \<in> set rest. disk e = files w \<and> json_payload e = Some (JObj []))"
  using assms
  by (auto simp: login_handshake_def log_entry_def split: prod.splits sum.splits
      dest!: request_effect)

lemma get_account_total_reply:
  assumes "logged_in c"
    and "request POST (balance_url ep) (build_headers ep ''digital'' False)
           (Some (accounts_payload rt acct)) [] None c w = (Inr r, c', w')"
    and "ok r" and "body r = Some v"
  shows "get_account_total rt ep acct c w = (account_total_of rt v, c', w')"
  using assms by (simp add: get_account_total_def check_login_def raise_for_status_def json_of_def)

lemma account_total_of_absent:
  "map_of kvs ''accounts'' = None \<Longrightarrow> account_total_of rt (JObj kvs) = Inr (float_zero rt)"
  by (simp add: account_total_of_def contains_def)

lemma account_total_of_falsy:
  "map_of kvs ''accounts'' = Some v \<Longrightarrow> \<not> py_truthy rt v \<Longrightarrow>
   account_total_of rt (JObj kvs) = Inr (float_zero rt)"
  by (simp add: account_total_of_def contains_def getitem_def)

lemma account_total_of_malformed:
  assumes "map_of kvs ''accounts'' = Some (JArr (JObj first # others))"
    and "map_of first ''balanceSummary'' = None
         \<or> (\<exists>bs. map_of first ''balanceSummary'' = Some (JObj bs)
                \<and> (map_of bs ''totalAssets'' = None
                    \<or> (\<exists>s. map_of bs ''totalAssets'' = Some (JStr s) \<and> float_of_str rt s = None)))"
  shows "account_total_of rt (JObj kvs) = Inl (RuntimeError ''Unable to parse account total value.'')"
  using assms
  by (auto simp: account_total_of_def contains_def getitem_def getitem0_def py_truthy_def
      try_except_def py_float_def)

lemma cached_client_simps:
  "cached_client = \<lparr>username = ''alice'', password = ''secret'', filename = ''plynk_credentials.pkl'',
      path = None, proxy_url = None, proxy_auth = None, debug = False,
      session = \<lparr>impersonate = ''safari_ios'', timeout = 10, proxies = [], session_proxy_auth = None,
                  cookies = sample_jar\<rparr>,
      account_number = None, logged_in = False\<rparr>"
  by (simp add: cached_client_def Plynk_def load_credentials_def os_exists_def os_read_def
        cached_world_def sample_world_def sample_runtime_def cred_path_def path_join_def make_session_def
        dict_update_sample_jar)

lemmas model_defs = login_def login_branch_def login_handshake_def verify_login_def fetch_account_number_def
  clear_credentials_def save_credentials_def request_def log_entry_def raise_for_status_def json_of_def
  session_status_def account_number_of_def try_except_def dict_get_def getitem_def getitem0_def
  set_session_def make_session_def cred_path_def path_join_def os_exists_def os_remove_def os_write_def
  os_makedirs_def is_dir_def auth_payload_def quoted_def py_str_def Let_def

lemma sample_paths:
  "strip_slashes ''.'' = ''.''"
  "strip_slashes ''./plynk_credentials.pkl'' = ''./plynk_credentials.pkl''"
  "dirname ''./plynk_credentials.pkl'' = ''.''"
  by (simp_all add: strip_slashes_def dirname_def)

lemmas sample_defs = sample_paths sample_world_def cached_world_def scripted_def answer_def sample_endpoints_def
  sample_runtime_def sample_client_simps cached_client_simps script_reuse_def script_reuse_fetch_fails_def
  script_fresh_def details_ok_def poll_reply_def

lemma decimal_of_str_sample: "decimal_of_str ''123.45'' = Some (2469 / 20)"
  by (simp add: decimal_of_str_def digits_value_def)

lemma decimal_of_str_abc: "decimal_of_str ''abc'' = None"
  by (simp add: decimal_of_str_def digits_value_def)

lemma sample_client_in_simps:
  "sample_client_in = \<lparr>username = ''alice'', password = ''secret'', filename = ''plynk_credentials.pkl'',
      path = None, proxy_url = None, proxy_auth = None, debug = False,
      session = \<lparr>impersonate = ''safari_ios'', timeout = 10, proxies = [], session_proxy_auth = None,
                  cookies = []\<rparr>,
      account_number = Some (JStr ''A1''), logged_in = True\<rparr>"
  by (simp add: sample_client_in_def sample_client_simps)

lemmas accessor_defs = get_account_total_def get_positions_def get_account_holdings_def
  get_stock_details_def get_stock_price_def check_login_def account_total_of_def stock_price_of_def
  holdings_of_def accounts_payload_def contains_def py_truthy_def py_float_def

lemmas codec_defs = text_dumps_def text_loads_def join_fields_def escape_def enc_dict_def dec_dict_def
  enc_value_def dec_value_def enc_cookie_def dec_cookie_def enc_expires_def dec_expires_def
  enc_bool_def dec_bool_def digits_value_def

lemma digits_of_sample: "digits_of 1893456000 = ''1893456000''"
  by (simp add: digits_of.simps)

lemma text_dumps_sample:
  "text_dumps (PDict [(''cookies'', PJar sample_jar)])
     = ''dict;1;cookies;jar;1;.digital.test;1;/;1;SESSION;SESSION;abc123;.digital.test;/;1893456000;T;T;''"
  by (simp add: codec_defs sample_jar_simps sample_cookie_def digits_of_sample)

lemma text_loads_sample:
  "text_loads ''dict;1;cookies;jar;1;.digital.test;1;/;1;SESSION;SESSION;abc123;.digital.test;/;1893456000;T;T;''
     = Some (PDict [(''cookies'', PJar sample_jar)])"
  by (simp add: codec_defs sample_jar_simps sample_cookie_def)

section \<open>The claims\<close>

text \<open>
  C1. Every data accessor (\<^verbatim>\<open>get_account_total\<close>, \<^verbatim>\<open>get_positions\<close>,
  \<^verbatim>\<open>get_account_holdings\<close>, \<^verbatim>\<open>get_stock_price\<close>, \<^verbatim>\<open>get_stock_details\<close>), called on a
  client whose \<open>logged_in\<close> is false, raises the not-logged-in error (in the source a
  RuntimeError with the text below) and leaves the client and the world, the log of
  requests included, exactly as they were: no request is issued.
\<close>

theorem accessors_require_login:
  assumes "\<not> logged_in c"
  shows "get_account_total rt ep acct c w = (Inl (RuntimeError ''Plynk not logged in. Please login first.''), c, w)
       \<and> get_positions rt ep acct c w = (Inl (RuntimeError ''Plynk not logged in. Please login first.''), c, w)
       \<and> get_account_holdings rt ep acct c w = (Inl (RuntimeError ''Plynk not logged in. Please login first.''), c, w)
       \<and> get_stock_price rt ep ticker c w = (Inl (RuntimeError ''Plynk not logged in. Please login first.''), c, w)
       \<and> get_stock_details ep ticker c w = (Inl (RuntimeError ''Plynk not logged in. Please login first.''), c, w)"
  using assms
  by (simp add: get_account_total_def get_positions_def get_account_holdings_def
        get_stock_price_def get_stock_details_def check_login_def)

theorem accessors_require_login_witness:
  "\<not> logged_in sample_client
   \<and> get_account_total sample_runtime sample_endpoints (JStr ''A1'') sample_client (sample_world [])
       = (Inl (RuntimeError ''Plynk not logged in. Please login first.''), sample_client, sample_world [])
   \<and> sent (snd (snd (get_stock_price sample_runtime sample_endpoints ''AAPL'' sample_client (sample_world [])))) = []"
proof -
  have h: "\<not> logged_in sample_client" by (simp add: sample_client_simps)
  show ?thesis
    using h accessors_require_login [OF h, of sample_runtime sample_endpoints "JStr ''A1''" "sample_world []" "''AAPL''"]
    by (simp add: sample_world_def)
qed

text \<open>
  C9. \<^verbatim>\<open>login\<close> returns \<open>True\<close> or raises: no run of it returns \<open>False\<close>.
\<close>

theorem login_never_returns_false: "fst (login rt ep c w) \<noteq> Inr False"
  by (simp add: login_def login_branch_def split: prod.splits sum.splits bool.splits)

text \<open>
  C2, as amended. On the fresh-login path, once the poll's answer is parsed and its status
  message read:
  \<^item> the message \<^verbatim>\<open>"Authentication Not Completed"\<close> makes \<^verbatim>\<open>login\<close> raise the
    OTP-unsupported error (NotImplementedError) and leaves \<open>logged_in\<close> as it was;
  \<^item> any other message that is not \<^verbatim>\<open>"Session Created"\<close> makes it raise the
    login-rejected error (a RuntimeError whose text ends with the status as \<^verbatim>\<open>str\<close> prints
    it, the raw text for a string) and leaves \<open>logged_in\<close> as it was;
  \<^item> \<^verbatim>\<open>"Session Created"\<close> makes it set \<open>logged_in\<close> and request the account number.
    If that fetch raises, the exception is \<^verbatim>\<open>login\<close>'s and no file is touched. If it
    returns a number, the number is stored and \<^verbatim>\<open>_save_credentials\<close> runs on the client:
    what it leaves is what \<^verbatim>\<open>login\<close> leaves; if it raises, \<^verbatim>\<open>login\<close> raises the same
    exception; if it succeeds, the cache file holds the pickled cookie jar and \<^verbatim>\<open>login\<close>
    returns \<open>True\<close>.
\<close>

theorem login_status_branch:
  assumes "verify_login ep c w = (False, c1, w1)"
    and "clear_credentials c1 w1 = (Inr (), c2, w2)"
    and "login_handshake ep c2 w2 = (Inr status, c3, w3)"
    and "login rt ep c w = (r, c', w')"
  shows "(status = JStr ''Authentication Not Completed'' \<longrightarrow>
            r = Inl (NotImplementedError ''OTP flow is defined but needs to be triggered to be tested.'')
            \<and> logged_in c' = logged_in c \<and> c' = c3 \<and> w' = w3)
       \<and> (status \<noteq> JStr ''Authentication Not Completed'' \<and> status \<noteq> JStr ''Session Created'' \<longrightarrow>
            r = Inl (RuntimeError (''Login failed with unexpected status: '' @ py_str rt status))
            \<and> logged_in c' = logged_in c \<and> c' = c3 \<and> w' = w3)
       \<and> (status = JStr ''Session Created'' \<longrightarrow>
            logged_in c'
            \<and> sent w' = sent w3 @ [log_entry GET (details_url ep) (build_headers ep ''digital'' False) None [] None c3 w3]
            \<and> (\<forall>e c4 w4. fetch_account_number ep c3 w3 = (Inl e, c4, w4) \<longrightarrow>
                  r = Inl e \<and> c' = c4\<lparr>logged_in := True\<rparr> \<and> w' = w4 \<and> files w' = files w3)
            \<and> (\<forall>a c4 w4 rs c5 w5.
                  fetch_account_number ep c3 w3 = (Inr a, c4, w4)
                  \<and> save_credentials rt (c4\<lparr>logged_in := True, account_number := Some a\<rparr>) w4 = (rs, c5, w5) \<longrightarrow>
                  c' = c4\<lparr>logged_in := True, account_number := Some a\<rparr> \<and> w' = w5
                  \<and> (\<forall>e. rs = Inl e \<longrightarrow> r = Inl e)
                  \<and> (rs = Inr () \<longrightarrow>
                        r = Inr True
                        \<and> files w' = (files w3)(cred_path c \<mapsto>
                              pickle_dumps rt (PDict [(''cookies'', PJar (cookies (session c')))])))))"
proof -
  note v = verify_login_effect [OF assms(1)]
  note k = clear_credentials_ok [OF assms(2)]
  note h = login_handshake_effect [OF assms(3)]
  have lg: "logged_in c3 = logged_in c" using v(6) k(6) h(5) by simp
  have cp: "cred_path c3 = cred_path c" using v(8,9) k(6) h(7,8) by (simp add: cred_path_def)
  have l: "login_branch rt ep status c3 w3 = (r, c', w')"
    using assms by (simp add: login_def)
  have 1: "status = JStr ''Authentication Not Completed'' \<longrightarrow>
            r = Inl (NotImplementedError ''OTP flow is defined but needs to be triggered to be tested.'')
            \<and> logged_in c' = logged_in c \<and> c' = c3 \<and> w' = w3"
    using l lg by (auto simp: login_branch_def)
  have 2: "status \<noteq> JStr ''Authentication Not Completed'' \<and> status \<noteq> JStr ''Session Created'' \<longrightarrow>
            r = Inl (RuntimeError (''Login failed with unexpected status: '' @ py_str rt status))
            \<and> logged_in c' = logged_in c \<and> c' = c3 \<and> w' = w3"
    using l lg by (auto simp: login_branch_def)
  have 3: "logged_in c'
            \<and> sent w' = sent w3 @ [log_entry GET (details_url ep) (build_headers ep ''digital'' False) None [] None c3 w3]
            \<and> (\<forall>e c4 w4. fetch_account_number ep c3 w3 = (Inl e, c4, w4) \<longrightarrow>
                  r = Inl e \<and> c' = c4\<lparr>logged_in := True\<rparr> \<and> w' = w4 \<and> files w' = files w3)
            \<and> (\<forall>a c4 w4 rs c5 w5.
                  fetch_account_number ep c3 w3 = (Inr a, c4, w4)
                  \<and> save_credentials rt (c4\<lparr>logged_in := True, account_number := Some a\<rparr>) w4 = (rs, c5, w5) \<longrightarrow>
                  c' = c4\<lparr>logged_in := True, account_number := Some a\<rparr> \<and> w' = w5
                  \<and> (\<forall>e. rs = Inl e \<longrightarrow> r = Inl e)
                  \<and> (rs = Inr () \<longrightarrow>
                        r = Inr True
                        \<and> files w' = (files w3)(cred_path c \<mapsto>
                              pickle_dumps rt (PDict [(''cookies'', PJar (cookies (session c')))]))))"
    if st: "status = JStr ''Session Created''"
  proof -
    obtain rf c4 w4 where f: "fetch_account_number ep c3 w3 = (rf, c4, w4)"
      by (cases "fetch_account_number ep c3 w3") auto
    note fe = fetch_account_number_effect [OF f]
    have f': "fetch_account_number ep (c3\<lparr>logged_in := True\<rparr>) w3 = (rf, c4\<lparr>logged_in := True\<rparr>, w4)"
      using f by (simp add: fetch_account_number_logged_in)
    show ?thesis
    proof (cases rf)
      case (Inl e)
      then have "r = Inl e" "c' = c4\<lparr>logged_in := True\<rparr>" "w' = w4"
        using l st f' by (simp_all add: login_branch_def)
      then show ?thesis using f Inl fe(1,2) by simp
    next
      case (Inr a)
      obtain rs c5 w5 where s: "save_credentials rt (c4\<lparr>logged_in := True, account_number := Some a\<rparr>) w4 = (rs, c5, w5)"
        by (cases "save_credentials rt (c4\<lparr>logged_in := True, account_number := Some a\<rparr>) w4") auto
      note se = save_credentials_effect [OF s]
      have cp4: "cred_path (c4\<lparr>logged_in := True, account_number := Some a\<rparr>) = cred_path c"
        using cp fe(8,9) by (simp add: cred_path_def)
      have res: "r = (case rs of Inl e \<Rightarrow> Inl e | Inr u \<Rightarrow> Inr True)" "c' = c5" "w' = w5"
        using l st f' Inr s by (auto simp: login_branch_def split: sum.splits)
      have wr: "rs = Inr () \<longrightarrow> files w5 = (files w3)(cred_path c \<mapsto>
                  pickle_dumps rt (PDict [(''cookies'', PJar (cookies (session c5)))]))"
        using se(1) se(6) [of "()"] fe(2) cp4 by simp
      show ?thesis
        using res se(1,2) wr s f Inr fe(1) by (auto split: sum.splits)
    qed
  qed
  show ?thesis using 1 2 3 by blast
qed

theorem login_status_branch_witness:
  "\<not> fst (verify_login sample_endpoints cached_client
            (cached_world (script_fresh ''Session Created'' details_ok)))
 \<and> fst (login sample_runtime sample_endpoints cached_client
          (cached_world (script_fresh ''Session Created'' details_ok))) = Inr True
 \<and> logged_in (fst (snd (login sample_runtime sample_endpoints cached_client
          (cached_world (script_fresh ''Session Created'' details_ok)))))
 \<and> account_number (fst (snd (login sample_runtime sample_endpoints cached_client
          (cached_world (script_fresh ''Session Created'' details_ok))))) = Some (JStr ''A1'')
 \<and> files (snd (snd (login sample_runtime sample_endpoints cached_client
          (cached_world (script_fresh ''Session Created'' details_ok))))) ''./plynk_credentials.pkl''
     = Some (PDict [(''cookies'', PJar [])])
 \<and> fst (login sample_runtime sample_endpoints cached_client
          (cached_world (script_fresh ''Something Else'' details_ok)))
     = Inl (RuntimeError ''Login failed with unexpected status: Something Else'')
 \<and> \<not> logged_in (fst (snd (login sample_runtime sample_endpoints cached_client
          (cached_world (script_fresh ''Something Else'' details_ok)))))
 \<and> fst (login sample_runtime sample_endpoints cached_client
          (cached_world (script_fresh ''Authentication Not Completed'' details_ok)))
     = Inl (NotImplementedError ''OTP flow is defined but needs to be triggered to be tested.'')
 \<and> \<not> logged_in (fst (snd (login sample_runtime sample_endpoints cached_client
          (cached_world (script_fresh ''Authentication Not Completed'' details_ok)))))"
proof -
  let ?E = sample_endpoints
  let ?R = sample_runtime
  have lo: "\<not> logged_in cached_client" by (simp add: cached_client_simps)
  have cp: "cred_path cached_client = ''./plynk_credentials.pkl''"
    by (simp add: cached_client_simps cred_path_def path_join_def)
  have run: "\<not> fst (verify_login ?E cached_client W)
     \<and> (status = JStr ''Authentication Not Completed'' \<longrightarrow>
            fst (login ?R ?E cached_client W)
              = Inl (NotImplementedError ''OTP flow is defined but needs to be triggered to be tested.'')
            \<and> \<not> logged_in (fst (snd (login ?R ?E cached_client W))))
     \<and> (status \<noteq> JStr ''Authentication Not Completed'' \<and> status \<noteq> JStr ''Session Created'' \<longrightarrow>
            fst (login ?R ?E cached_client W)
              = Inl (RuntimeError (''Login failed with unexpected status: '' @ py_str ?R status))
            \<and> \<not> logged_in (fst (snd (login ?R ?E cached_client W))))
     \<and> (status = JStr ''Session Created'' \<longrightarrow>
            (\<forall>a c4 w4 c5 w5.
                fetch_account_number ?E c3 w3 = (Inr a, c4, w4)
                \<and> save_credentials ?R (c4\<lparr>logged_in := True, account_number := Some a\<rparr>) w4 = (Inr (), c5, w5) \<longrightarrow>
                fst (login ?R ?E cached_client W) = Inr True
                \<and> logged_in (fst (snd (login ?R ?E cached_client W)))
                \<and> account_number (fst (snd (login ?R ?E cached_client W))) = Some a
                \<and> files (snd (snd (login ?R ?E cached_client W))) (cred_path cached_client)
                     = Some (pickle_dumps ?R (PDict [(''cookies'', PJar (cookies (session c4)))]))))"
    if h1: "verify_login ?E cached_client W = (False, c1, w1)"
      and h2: "clear_credentials c1 w1 = (Inr (), c2, w2)"
      and h3: "login_handshake ?E c2 w2 = (Inr status, c3, w3)"
    for W :: "(rat, pickled) world" and status c1 w1 c2 w2 c3 w3
  proof -
    obtain r c' w' where h4: "login ?R ?E cached_client W = (r, c', w')"
      by (cases "login ?R ?E cached_client W") auto
    show ?thesis
      unfolding h4 using login_status_branch [OF h1 h2 h3 h4] h1 lo by auto
  qed
  let ?W1 = "cached_world (script_fresh ''Session Created'' details_ok)"
  have ev: "(case verify_login ?E cached_client ?W1 of (b1, c1, w1) \<Rightarrow>
             case clear_credentials c1 w1 of (r2, c2, w2) \<Rightarrow>
             case login_handshake ?E c2 w2 of (r3, c3, w3) \<Rightarrow>
             case fetch_account_number ?E c3 w3 of (r4, c4, w4) \<Rightarrow>
             case save_credentials ?R (c4\<lparr>logged_in := True, account_number := Some (JStr ''A1'')\<rparr>) w4 of
               (r5, c5, w5) \<Rightarrow>
                 b1 = False \<and> r2 = Inr () \<and> r3 = Inr (JStr ''Session Created'')
                 \<and> r4 = Inr (JStr ''A1'') \<and> r5 = Inr () \<and> cookies (session c4) = [])"
    by (simp add: model_defs sample_defs)
  obtain b1 c1 w1 where v1: "verify_login ?E cached_client ?W1 = (b1, c1, w1)"
    by (cases "verify_login ?E cached_client ?W1") auto
  obtain r2 c2 w2 where k1: "clear_credentials c1 w1 = (r2, c2, w2)"
    by (cases "clear_credentials c1 w1") auto
  obtain r3 c3 w3 where h1: "login_handshake ?E c2 w2 = (r3, c3, w3)"
    by (cases "login_handshake ?E c2 w2") auto
  obtain r4 c4 w4 where f1: "fetch_account_number ?E c3 w3 = (r4, c4, w4)"
    by (cases "fetch_account_number ?E c3 w3") auto
  obtain r5 c5 w5 where
    s1: "save_credentials ?R (c4\<lparr>logged_in := True, account_number := Some (JStr ''A1'')\<rparr>) w4 = (r5, c5, w5)"
    by (cases "save_credentials ?R (c4\<lparr>logged_in := True, account_number := Some (JStr ''A1'')\<rparr>) w4") auto
  have res: "b1 = False" "r2 = Inr ()" "r3 = Inr (JStr ''Session Created'')" "r4 = Inr (JStr ''A1'')"
    "r5 = Inr ()" "cookies (session c4) = []"
    using ev unfolding v1 prod.case k1 h1 f1 s1 by simp_all
  note a1 = v1 [unfolded res] and a2 = k1 [unfolded res] and a3 = h1 [unfolded res]
    and a4 = f1 [unfolded res] and a5 = s1 [unfolded res]
  note r1 = run [OF a1 a2 a3, THEN conjunct2, THEN conjunct2, THEN conjunct2, THEN mp, OF refl,
                 rule_format, OF conjI, OF a4 a5]
  have sc: "fst (login ?R ?E cached_client ?W1) = Inr True
      \<and> logged_in (fst (snd (login ?R ?E cached_client ?W1)))
      \<and> account_number (fst (snd (login ?R ?E cached_client ?W1))) = Some (JStr ''A1'')
      \<and> files (snd (snd (login ?R ?E cached_client ?W1))) ''./plynk_credentials.pkl''
           = Some (PDict [(''cookies'', PJar [])])"
    using r1 unfolding res cp by (simp add: sample_runtime_def)
  have v: "\<not> fst (verify_login ?E cached_client ?W1)" unfolding a1 by simp
  let ?W2 = "cached_world (script_fresh ''Something Else'' details_ok)"
  let ?v2 = "verify_login ?E cached_client ?W2"
  let ?k2 = "clear_credentials (fst (snd ?v2)) (snd (snd ?v2))"
  let ?h2 = "login_handshake ?E (fst (snd ?k2)) (snd (snd ?k2))"
  have b1: "?v2 = (False, fst (snd ?v2), snd (snd ?v2))" by (simp add: model_defs sample_defs)
  have b2: "?k2 = (Inr (), fst (snd ?k2), snd (snd ?k2))" by (simp add: model_defs sample_defs)
  have b3: "?h2 = (Inr (JStr ''Something Else''), fst (snd ?h2), snd (snd ?h2))"
    by (simp add: model_defs sample_defs)
  let ?W3 = "cached_world (script_fresh ''Authentication Not Completed'' details_ok)"
  let ?v3 = "verify_login ?E cached_client ?W3"
  let ?k3 = "clear_credentials (fst (snd ?v3)) (snd (snd ?v3))"
  let ?h3 = "login_handshake ?E (fst (snd ?k3)) (snd (snd ?k3))"
  have c1: "?v3 = (False, fst (snd ?v3), snd (snd ?v3))" by (simp add: model_defs sample_defs)
  have c2: "?k3 = (Inr (), fst (snd ?k3), snd (snd ?k3))" by (simp add: model_defs sample_defs)
  have c3: "?h3 = (Inr (JStr ''Authentication Not Completed''), fst (snd ?h3), snd (snd ?h3))"
    by (simp add: model_defs sample_defs)
  show ?thesis
    using run [OF b1 b2 b3] run [OF c1 c2 c3] sc v
    by (simp add: py_str_def)
qed

text \<open>
  C2 as stated fails: the poll says \<^verbatim>\<open>"Session Created"\<close>, but the details document
  has no \<^verbatim>\<open>user\<close> key, so \<^verbatim>\<open>login\<close> raises instead of returning success, with
  \<open>logged_in\<close> set and no credential file written.
\<close>

theorem login_status_counterexample:
  "fst (login sample_runtime sample_endpoints cached_client
          (cached_world (script_fresh ''Session Created'' (JObj []))))
     = Inl (RuntimeError (''Could not parse account number from details response: '' @ quoted ''user''))
 \<and> logged_in (fst (snd (login sample_runtime sample_endpoints cached_client
          (cached_world (script_fresh ''Session Created'' (JObj []))))))
 \<and> files (snd (snd (login sample_runtime sample_endpoints cached_client
          (cached_world (script_fresh ''Session Created'' (JObj [])))))) ''./plynk_credentials.pkl'' = None"
  by (simp add: model_defs sample_defs)

text \<open>
  C3, as amended. When the verify probe is answered 200, \<^verbatim>\<open>login\<close> sets \<open>logged_in\<close>,
  issues exactly two requests, both GETs of the details endpoint (the probe and the
  account-number fetch), so no password request and no poll, and leaves files and
  directories untouched, so no credential is saved. It returns \<open>True\<close> with the account
  number stored when the fetch returns one; when the fetch raises, it raises the same
  exception.
\<close>

theorem login_reuses_session:
  assumes "verify_login ep c w = (True, c1, w1)" and "login rt ep c w = (r, c', w')"
  shows "logged_in c'
       \<and> files w' = files w \<and> dirs w' = dirs w
       \<and> sent w' = sent w @ [log_entry GET (details_url ep) (build_headers ep ''digital'' False) None [] (Some 5) c w,
                              log_entry GET (details_url ep) (build_headers ep ''digital'' False) None [] None c1 w1]
       \<and> ((\<exists>a. fst (fetch_account_number ep c1 w1) = Inr a \<and> r = Inr True \<and> account_number c' = Some a)
          \<or> (\<exists>e. fst (fetch_account_number ep c1 w1) = Inl e \<and> r = Inl e))"
proof -
  obtain r2 c2 w2 where f: "fetch_account_number ep c1 w1 = (r2, c2, w2)"
    by (cases "fetch_account_number ep c1 w1") auto
  have l: "login rt ep c w =
             (case r2 of Inl e \<Rightarrow> (Inl e, c2\<lparr>logged_in := True\<rparr>, w2)
                       | Inr a \<Rightarrow> (Inr True, c2\<lparr>logged_in := True, account_number := Some a\<rparr>, w2))"
    using assms(1) f by (simp add: login_def fetch_account_number_logged_in split: sum.splits)
  note v = verify_login_effect [OF assms(1)]
  note e = fetch_account_number_effect [OF f]
  show ?thesis
    using assms(2) l f v(1,2,3) e(1,2,3) by (cases r2) auto
qed

theorem login_reuses_session_witness:
  "fst (verify_login sample_endpoints sample_client (sample_world script_reuse))
 \<and> login sample_runtime sample_endpoints sample_client (sample_world script_reuse)
     = (Inr True,
        fst (snd (login sample_runtime sample_endpoints sample_client (sample_world script_reuse))),
        snd (snd (login sample_runtime sample_endpoints sample_client (sample_world script_reuse))))
 \<and> logged_in (fst (snd (login sample_runtime sample_endpoints sample_client (sample_world script_reuse))))
 \<and> account_number (fst (snd (login sample_runtime sample_endpoints sample_client (sample_world script_reuse))))
     = Some (JStr ''A1'')
 \<and> files (snd (snd (login sample_runtime sample_endpoints sample_client (sample_world script_reuse))))
     = Map.empty
 \<and> length (sent (snd (snd (login sample_runtime sample_endpoints sample_client (sample_world script_reuse))))) = 2"
proof -
  let ?W = "sample_world script_reuse"
  let ?v = "verify_login sample_endpoints sample_client ?W"
  let ?l = "login sample_runtime sample_endpoints sample_client ?W"
  have h1: "?v = (True, fst (snd ?v), snd (snd ?v))"
    by (simp add: model_defs sample_defs)
  have h2: "?l = (fst ?l, fst (snd ?l), snd (snd ?l))" by simp
  have a: "fst (fetch_account_number sample_endpoints (fst (snd ?v)) (snd (snd ?v))) = Inr (JStr ''A1'')"
    by (simp add: model_defs sample_defs)
  have w: "files ?W = Map.empty" "sent ?W = []" by (simp_all add: sample_world_def)
  have v: "fst ?v" using h1 by (metis fst_conv)
  show ?thesis
    using login_reuses_session [OF h1 h2] a w v by (auto simp: prod_eq_iff)
qed

text \<open>
  C3 as stated fails: the probe is answered 200, but the details document has no
  \<^verbatim>\<open>user\<close> key, so \<^verbatim>\<open>login\<close> raises instead of returning success.
\<close>

theorem login_reuse_counterexample:
  "fst (verify_login sample_endpoints sample_client (sample_world script_reuse_fetch_fails))
 \<and> fst (login sample_runtime sample_endpoints sample_client (sample_world script_reuse_fetch_fails))
     = Inl (RuntimeError (''Could not parse account number from details response: '' @ quoted ''user''))"
  by (simp add: model_defs sample_defs)

text \<open>
  C4. When the verify probe is not answered 200 (or fails), every request \<^verbatim>\<open>login\<close>
  issues after the probe finds no cache file on disk; the first of them, if there is
  one, is the POST of the password to the authentication endpoint; and a request that
  carries the password goes out on the session \<^verbatim>\<open>_set_session\<close> builds from the
  client's own proxy settings, whose cookie jar is empty.
\<close>

theorem login_clears_before_password:
  assumes "verify_login ep c w = (False, c1, w1)" and "login rt ep c w = (r, c', w')"
  shows "\<exists>rest. sent w' = sent w1 @ rest
          \<and> (\<forall>e \<in> set rest. disk e (cred_path c) = None)
          \<and> (\<forall>e \<in> set rest. json_payload e = Some (auth_payload c) \<longrightarrow>
                 via_session e = make_session (proxy_url c) (proxy_auth c) \<and> cookies (via_session e) = [])
          \<and> (rest \<noteq> [] \<longrightarrow> req_method (hd rest) = POST \<and> url (hd rest) = authentication_url ep
                 \<and> json_payload (hd rest) = Some (auth_payload c))"
proof -
  note v = verify_login_effect [OF assms(1)]
  have p1: "cred_path c1 = cred_path c" using v(8,9) by (simp add: cred_path_def)
  obtain rc c2 w2 where cl: "clear_credentials c1 w1 = (rc, c2, w2)"
    by (cases "clear_credentials c1 w1") auto
  show ?thesis
  proof (cases rc)
    case (Inl e)
    then have "login rt ep c w = (Inl e, c2, w2)" using assms(1) cl by (simp add: login_def)
    moreover have "w2 = w1" using cl Inl clear_credentials_fails by blast
    ultimately have "sent w' = sent w1 @ []" using assms(2) by simp
    then show ?thesis by (intro exI [of _ "[]"]) simp
  next
    case (Inr u)
    note k = clear_credentials_ok [OF cl [unfolded Inr]]
    have c2: "session c2 = make_session (proxy_url c) (proxy_auth c)" "username c2 = username c"
      "password c2 = password c" "filename c2 = filename c" "path c2 = path c"
      using k(6) v by simp_all
    have ap: "auth_payload c2 = auth_payload c" using c2 by (simp add: auth_payload_def)
    have none2: "files w2 (cred_path c) = None" using k(1) p1 by simp
    obtain rh c3 w3 where h: "login_handshake ep c2 w2 = (rh, c3, w3)"
      by (cases "login_handshake ep c2 w2") auto
    note he = login_handshake_effect [OF h]
    obtain rest where rest: "sent w3 = sent w2 @ log_entry POST (authentication_url ep)
          (build_headers ep ''ecaap'' False) (Some (auth_payload c2)) [] None c2 w2 # rest"
      and restp: "\<forall>e \<in> set rest. disk e = files w2 \<and> json_payload e = Some (JObj [])"
      using login_handshake_sent [OF h] by blast
    let ?A = "log_entry POST (authentication_url ep) (build_headers ep ''ecaap'' False)
                (Some (auth_payload c2)) [] None c2 w2"
    have A: "disk ?A (cred_path c) = None" "via_session ?A = make_session (proxy_url c) (proxy_auth c)"
      "req_method ?A = POST" "url ?A = authentication_url ep" "json_payload ?A = Some (auth_payload c)"
      using none2 c2 ap by (simp_all add: log_entry_def)
    have notauth: "Some (JObj []) \<noteq> Some (auth_payload c)" by (simp add: auth_payload_def)
    have l: "login rt ep c w = (case rh of Inl e \<Rightarrow> (Inl e, c3, w3) | Inr st \<Rightarrow> login_branch rt ep st c3 w3)"
      using assms(1) cl Inr h by (simp add: login_def split: sum.splits)
    have "\<exists>more. sent w' = sent w3 @ more
            \<and> (\<forall>e \<in> set more. disk e = files w3 \<and> json_payload e = None)"
    proof (cases rh)
      case (Inl e)
      then have "w' = w3" using l assms(2) by simp
      then show ?thesis by (intro exI [of _ "[]"]) simp
    next
      case (Inr st)
      then have lb: "login_branch rt ep st c3 w3 = (r, c', w')" using l assms(2) by simp
      show ?thesis
      proof (cases "st = JStr ''Session Created''")
        case False
        then have "w' = w3" using lb by (auto simp: login_branch_def split: if_splits)
        then show ?thesis by (intro exI [of _ "[]"]) simp
      next
        case True
        obtain rf c4 w4 where f: "fetch_account_number ep (c3\<lparr>logged_in := True\<rparr>) w3 = (rf, c4, w4)"
          by (cases "fetch_account_number ep (c3\<lparr>logged_in := True\<rparr>) w3") auto
        note fe = fetch_account_number_effect [OF f]
        have "sent w' = sent w4"
          using lb True f
          by (auto simp: login_branch_def split: sum.splits prod.splits dest: save_credentials_effect(2))
        then show ?thesis
          using fe(1) by (intro exI [of _ "[log_entry GET (details_url ep) (build_headers ep ''digital'' False) None [] None (c3\<lparr>logged_in := True\<rparr>) w3]"])
            (simp add: log_entry_def)
      qed
    qed
    then obtain more where more: "sent w' = sent w3 @ more"
      and morep: "\<forall>e \<in> set more. disk e = files w3 \<and> json_payload e = None" by blast
    have "sent w' = sent w1 @ (?A # rest @ more)" using more rest k(2) by simp
    moreover have "\<forall>e \<in> set (?A # rest @ more). disk e (cred_path c) = None"
      using A(1) restp morep he(1) none2 by auto
    moreover have "\<forall>e \<in> set (?A # rest @ more). json_payload e = Some (auth_payload c) \<longrightarrow>
                 via_session e = make_session (proxy_url c) (proxy_auth c) \<and> cookies (via_session e) = []"
      using A(2) restp morep notauth by (auto simp: cookies_make_session)
    moreover have "req_method (hd (?A # rest @ more)) = POST \<and> url (hd (?A # rest @ more)) = authentication_url ep
                 \<and> json_payload (hd (?A # rest @ more)) = Some (auth_payload c)"
      using A(3,4,5) by simp
    ultimately show ?thesis by blast
  qed
qed

theorem login_clears_before_password_witness:
  "\<not> fst (verify_login sample_endpoints cached_client
            (cached_world (script_fresh ''Session Created'' details_ok)))
 \<and> map_of (cookies (session cached_client)) ''.digital.test'' \<noteq> None
 \<and> files (cached_world (script_fresh ''Session Created'' details_ok)) (cred_path cached_client) \<noteq> None
 \<and> (\<exists>rest. sent (snd (snd (login sample_runtime sample_endpoints cached_client
                    (cached_world (script_fresh ''Session Created'' details_ok)))))
             = sent (snd (snd (verify_login sample_endpoints cached_client
                    (cached_world (script_fresh ''Session Created'' details_ok))))) @ rest
          \<and> length rest = 3
          \<and> (\<forall>e \<in> set rest. disk e (cred_path cached_client) = None)
          \<and> req_method (hd rest) = POST
          \<and> json_payload (hd rest) = Some (auth_payload cached_client)
          \<and> cookies (via_session (hd rest)) = [])"
proof -
  let ?W = "cached_world (script_fresh ''Session Created'' details_ok)"
  let ?v = "verify_login sample_endpoints cached_client ?W"
  let ?l = "login sample_runtime sample_endpoints cached_client ?W"
  have h1: "?v = (False, fst (snd ?v), snd (snd ?v))" by (simp add: model_defs sample_defs)
  have h2: "?l = (fst ?l, fst (snd ?l), snd (snd ?l))" by simp
  have n: "length (sent (snd (snd ?l))) = 4" "length (sent (snd (snd ?v))) = 1"
    by (simp_all add: model_defs sample_defs)
  have old: "map_of (cookies (session cached_client)) ''.digital.test'' \<noteq> None"
    "files ?W (cred_path cached_client) \<noteq> None"
    by (simp_all add: cached_client_simps sample_jar_simps
        cached_world_def sample_world_def cred_path_def path_join_def)
  obtain rest where r: "sent (snd (snd ?l)) = sent (snd (snd ?v)) @ rest"
    and d: "\<forall>e \<in> set rest. disk e (cred_path cached_client) = None"
    and j: "\<forall>e \<in> set rest. json_payload e = Some (auth_payload cached_client) \<longrightarrow>
              via_session e = make_session (proxy_url cached_client) (proxy_auth cached_client)
              \<and> cookies (via_session e) = []"
    and f: "rest \<noteq> [] \<longrightarrow> req_method (hd rest) = POST \<and> url (hd rest) = authentication_url sample_endpoints
              \<and> json_payload (hd rest) = Some (auth_payload cached_client)"
    using login_clears_before_password [OF h1 h2] by blast
  have "length (sent (snd (snd ?l))) = length (sent (snd (snd ?v)) @ rest)"
    by (rule arg_cong [OF r])
  then have len: "length rest = 3" using n by simp
  then have ne: "rest \<noteq> []" by auto
  then have hd: "hd rest \<in> set rest" by simp
  have f': "req_method (hd rest) = POST" "json_payload (hd rest) = Some (auth_payload cached_client)"
    using f ne by blast+
  have e': "cookies (via_session (hd rest)) = []"
    using j hd f'(2) by blast
  have v: "\<not> fst ?v" using h1 by (metis fst_conv)
  have "sent (snd (snd ?l)) = sent (snd (snd ?v)) @ rest
          \<and> length rest = 3
          \<and> (\<forall>e \<in> set rest. disk e (cred_path cached_client) = None)
          \<and> req_method (hd rest) = POST
          \<and> json_payload (hd rest) = Some (auth_payload cached_client)
          \<and> cookies (via_session (hd rest)) = []"
    using r len d f' e' by blast
  then have ex: "\<exists>rest. sent (snd (snd ?l)) = sent (snd (snd ?v)) @ rest
          \<and> length rest = 3
          \<and> (\<forall>e \<in> set rest. disk e (cred_path cached_client) = None)
          \<and> req_method (hd rest) = POST
          \<and> json_payload (hd rest) = Some (auth_payload cached_client)
          \<and> cookies (via_session (hd rest)) = []" by (rule exI)
  show ?thesis using v old ex by blast
qed

text \<open>
  C5. For a logged-in client whose balance request is answered with success:
  the body \<^verbatim>\<open>{"accounts":[]}\<close> makes \<^verbatim>\<open>get_account_total\<close> return \<^verbatim>\<open>0.0\<close>, the body
  \<^verbatim>\<open>{}\<close> too, and the body \<^verbatim>\<open>{"accounts":[{"balanceSummary":{}}]}\<close> makes it raise the
  parse error (RuntimeError, "Unable to parse account total value.").
\<close>

theorem account_total_examples:
  assumes "logged_in c"
    and "request POST (balance_url ep) (build_headers ep ''digital'' False)
           (Some (accounts_payload rt acct)) [] None c w = (Inr r, c', w')"
    and "ok r"
  shows "(body r = Some (JObj [(''accounts'', JArr [])]) \<longrightarrow>
            get_account_total rt ep acct c w = (Inr (float_zero rt), c', w'))
       \<and> (body r = Some (JObj []) \<longrightarrow>
            get_account_total rt ep acct c w = (Inr (float_zero rt), c', w'))
       \<and> (body r = Some (JObj [(''accounts'', JArr [JObj [(''balanceSummary'', JObj [])]])]) \<longrightarrow>
            get_account_total rt ep acct c w
              = (Inl (RuntimeError ''Unable to parse account total value.''), c', w'))"
proof (intro conjI impI)
  assume b: "body r = Some (JObj [(''accounts'', JArr [])])"
  show "get_account_total rt ep acct c w = (Inr (float_zero rt), c', w')"
    using get_account_total_reply [OF assms b]
    by (simp add: account_total_of_falsy [where v = "JArr []"] py_truthy_def)
next
  assume b: "body r = Some (JObj [])"
  show "get_account_total rt ep acct c w = (Inr (float_zero rt), c', w')"
    using get_account_total_reply [OF assms b] by (simp add: account_total_of_absent)
next
  assume b: "body r = Some (JObj [(''accounts'', JArr [JObj [(''balanceSummary'', JObj [])]])])"
  show "get_account_total rt ep acct c w = (Inl (RuntimeError ''Unable to parse account total value.''), c', w')"
    using get_account_total_reply [OF assms b]
    by (simp add: account_total_of_malformed [where first = "[(''balanceSummary'', JObj [])]" and others = "[]"])
qed

theorem account_total_examples_witness:
  "logged_in sample_client_in
 \<and> fst (get_account_total sample_runtime sample_endpoints (JStr ''A1'') sample_client_in
          (sample_world [answer 200 (JObj [(''accounts'', JArr [])])])) = Inr 0
 \<and> fst (get_account_total sample_runtime sample_endpoints (JStr ''A1'') sample_client_in
          (sample_world [answer 200 (JObj [])])) = Inr 0
 \<and> fst (get_account_total sample_runtime sample_endpoints (JStr ''A1'') sample_client_in
          (sample_world [answer 200 (JObj [(''accounts'', JArr [JObj [(''balanceSummary'', JObj [])]])])]))
     = Inl (RuntimeError ''Unable to parse account total value.'')"
proof -
  have li: "logged_in sample_client_in" by (simp add: sample_client_in_simps)
  have run: "(v = JObj [(''accounts'', JArr [])] \<longrightarrow>
        fst (get_account_total sample_runtime sample_endpoints (JStr ''A1'') sample_client_in
               (sample_world [answer 200 v])) = Inr (float_zero sample_runtime))
    \<and> (v = JObj [] \<longrightarrow>
        fst (get_account_total sample_runtime sample_endpoints (JStr ''A1'') sample_client_in
               (sample_world [answer 200 v])) = Inr (float_zero sample_runtime))
    \<and> (v = JObj [(''accounts'', JArr [JObj [(''balanceSummary'', JObj [])]])] \<longrightarrow>
        fst (get_account_total sample_runtime sample_endpoints (JStr ''A1'') sample_client_in
               (sample_world [answer 200 v])) = Inl (RuntimeError ''Unable to parse account total value.''))"
    for v :: "rat json"
  proof -
    let ?q = "request POST (balance_url sample_endpoints) (build_headers sample_endpoints ''digital'' False)
           (Some (accounts_payload sample_runtime (JStr ''A1''))) [] None sample_client_in
           (sample_world [answer 200 v])"
    let ?r = "\<lparr>status_code = 200, ok = True, body = Some v, set_cookies = []\<rparr> :: rat response"
    have q: "?q = (Inr ?r, fst (snd ?q), snd (snd ?q))"
      by (simp add: request_def Let_def sample_world_def scripted_def answer_def)
    have k: "ok ?r" by simp
    show ?thesis using account_total_examples [OF li q k] by simp
  qed
  show ?thesis
    using li run [of "JObj [(''accounts'', JArr [])]"] run [of "JObj []"]
      run [of "JObj [(''accounts'', JArr [JObj [(''balanceSummary'', JObj [])]])]"]
    by (simp add: sample_runtime_def)
qed

text \<open>
  C6, as amended. For a logged-in client whose balance request is answered with success
  and a JSON object: \<^verbatim>\<open>get_account_total\<close> returns \<^verbatim>\<open>0.0\<close> when the key \<^verbatim>\<open>accounts\<close> is
  absent and also when its value is empty (falsy); it raises the parse error when the
  value is a list whose first element is an object in which \<^verbatim>\<open>balanceSummary\<close> is
  missing, or is an object in which \<^verbatim>\<open>totalAssets\<close> is missing or is a string that
  \<^verbatim>\<open>float\<close> rejects.
\<close>

theorem account_total_policy:
  assumes "logged_in c"
    and "request POST (balance_url ep) (build_headers ep ''digital'' False)
           (Some (accounts_payload rt acct)) [] None c w = (Inr r, c', w')"
    and "ok r" and "body r = Some (JObj kvs)"
  shows "(map_of kvs ''accounts'' = None \<longrightarrow>
            get_account_total rt ep acct c w = (Inr (float_zero rt), c', w'))
       \<and> (\<forall>v. map_of kvs ''accounts'' = Some v \<and> \<not> py_truthy rt v \<longrightarrow>
            get_account_total rt ep acct c w = (Inr (float_zero rt), c', w'))
       \<and> (\<forall>first others.
            map_of kvs ''accounts'' = Some (JArr (JObj first # others))
            \<and> (map_of first ''balanceSummary'' = None
               \<or> (\<exists>bs. map_of first ''balanceSummary'' = Some (JObj bs)
                      \<and> (map_of bs ''totalAssets'' = None
                          \<or> (\<exists>s. map_of bs ''totalAssets'' = Some (JStr s) \<and> float_of_str rt s = None)))) \<longrightarrow>
            get_account_total rt ep acct c w
              = (Inl (RuntimeError ''Unable to parse account total value.''), c', w'))"
  using get_account_total_reply [OF assms]
  by (simp add: account_total_of_absent account_total_of_falsy account_total_of_malformed)

theorem account_total_policy_witness:
  "logged_in sample_client_in
 \<and> fst (get_account_total sample_runtime sample_endpoints (JStr ''A1'') sample_client_in
          (sample_world [answer 200 (JObj [(''other'', JNull)])])) = Inr 0
 \<and> fst (get_account_total sample_runtime sample_endpoints (JStr ''A1'') sample_client_in
          (sample_world [answer 200 (JObj [(''accounts'', JArr [])])])) = Inr 0
 \<and> fst (get_account_total sample_runtime sample_endpoints (JStr ''A1'') sample_client_in
          (sample_world [answer 200 (JObj [(''accounts'',
             JArr [JObj [(''balanceSummary'', JObj [(''totalAssets'', JStr ''abc'')])]])])]))
     = Inl (RuntimeError ''Unable to parse account total value.'')"
proof -
  have li: "logged_in sample_client_in" by (simp add: sample_client_in_simps)
  have run: "(map_of kvs ''accounts'' = None \<longrightarrow>
        fst (get_account_total sample_runtime sample_endpoints (JStr ''A1'') sample_client_in
               (sample_world [answer 200 (JObj kvs)])) = Inr (float_zero sample_runtime))
    \<and> (\<forall>v. map_of kvs ''accounts'' = Some v \<and> \<not> py_truthy sample_runtime v \<longrightarrow>
        fst (get_account_total sample_runtime sample_endpoints (JStr ''A1'') sample_client_in
               (sample_world [answer 200 (JObj kvs)])) = Inr (float_zero sample_runtime))
    \<and> (\<forall>first others.
            map_of kvs ''accounts'' = Some (JArr (JObj first # others))
            \<and> (map_of first ''balanceSummary'' = None
               \<or> (\<exists>bs. map_of first ''balanceSummary'' = Some (JObj bs)
                      \<and> (map_of bs ''totalAssets'' = None
                          \<or> (\<exists>s. map_of bs ''totalAssets'' = Some (JStr s)
                                 \<and> float_of_str sample_runtime s = None)))) \<longrightarrow>
        fst (get_account_total sample_runtime sample_endpoints (JStr ''A1'') sample_client_in
               (sample_world [answer 200 (JObj kvs)])) = Inl (RuntimeError ''Unable to parse account total value.''))"
    for kvs :: "(string \<times> rat json) list"
  proof -
    let ?q = "request POST (balance_url sample_endpoints) (build_headers sample_endpoints ''digital'' False)
           (Some (accounts_payload sample_runtime (JStr ''A1''))) [] None sample_client_in
           (sample_world [answer 200 (JObj kvs)])"
    let ?r = "\<lparr>status_code = 200, ok = True, body = Some (JObj kvs), set_cookies = []\<rparr> :: rat response"
    have q: "?q = (Inr ?r, fst (snd ?q), snd (snd ?q))"
      by (simp add: request_def Let_def sample_world_def scripted_def answer_def)
    have k: "ok ?r" "body ?r = Some (JObj kvs)" by simp_all
    show ?thesis using account_total_policy [OF li q k] by simp
  qed
  have 1: "fst (get_account_total sample_runtime sample_endpoints (JStr ''A1'') sample_client_in
          (sample_world [answer 200 (JObj [(''other'', JNull)])])) = Inr 0"
    using run [of "[(''other'', JNull)]"] by (simp add: sample_runtime_def)
  have 2: "fst (get_account_total sample_runtime sample_endpoints (JStr ''A1'') sample_client_in
          (sample_world [answer 200 (JObj [(''accounts'', JArr [])])])) = Inr 0"
    using run [of "[(''accounts'', JArr [])]"] by (simp add: sample_runtime_def py_truthy_def)
  have "map_of [(''accounts'', JArr [JObj [(''balanceSummary'', JObj [(''totalAssets'', JStr ''abc'')])]])] ''accounts''
           = Some (JArr (JObj [(''balanceSummary'', JObj [(''totalAssets'', JStr ''abc'')])] # []))
        \<and> (map_of [(''balanceSummary'', JObj [(''totalAssets'', JStr ''abc'')])] ''balanceSummary'' = None
           \<or> (\<exists>bs. map_of [(''balanceSummary'', JObj [(''totalAssets'', JStr ''abc'')])] ''balanceSummary'' = Some (JObj bs)
                  \<and> (map_of bs ''totalAssets'' = None
                      \<or> (\<exists>s. map_of bs ''totalAssets'' = Some (JStr s) \<and> float_of_str sample_runtime s = None))))"
    by (simp add: sample_runtime_def decimal_of_str_abc)
  then have 3: "fst (get_account_total sample_runtime sample_endpoints (JStr ''A1'') sample_client_in
          (sample_world [answer 200 (JObj [(''accounts'',
             JArr [JObj [(''balanceSummary'', JObj [(''totalAssets'', JStr ''abc'')])]])])]))
     = Inl (RuntimeError ''Unable to parse account total value.'')"
    using run [of "[(''accounts'', JArr [JObj [(''balanceSummary'', JObj [(''totalAssets'', JStr ''abc'')])]])]"]
    by blast
  show ?thesis using li 1 2 3 by blast
qed

text \<open>
  C6 as stated fails: the key \<^verbatim>\<open>accounts\<close> is present and its value is empty, and
  \<^verbatim>\<open>get_account_total\<close> returns \<^verbatim>\<open>0.0\<close> instead of raising.
\<close>

theorem account_total_counterexample:
  "fst (get_account_total sample_runtime sample_endpoints (JStr ''A1'') sample_client_in
          (sample_world [answer 200 (JObj [(''accounts'', JArr [])])])) = Inr 0"
  by (simp add: accessor_defs model_defs sample_defs sample_client_in_simps)

text \<open>
  C7. \<^verbatim>\<open>get_stock_price\<close> on \<^verbatim>\<open>{"securityDetails":{"lastPrice":"123.45"}}\<close> returns the
  float of \<^verbatim>\<open>"123.45"\<close>, and a missing \<^verbatim>\<open>lastPrice\<close> raises the parse error; but a
  \<^verbatim>\<open>lastPrice\<close> that is \<^verbatim>\<open>null\<close>, which is not numeric, raises TypeError, which the
  handler of lines 215 and 216 does not catch: the code does not raise the parse error
  there.
\<close>

theorem stock_price_null:
  "fst (get_stock_price sample_runtime sample_endpoints ''AAPL'' sample_client_in
          (sample_world [answer 200 (JObj [(''securityDetails'', JObj [(''lastPrice'', JNull)])])]))
     = Inl TypeError
 \<and> fst (get_stock_price sample_runtime sample_endpoints ''AAPL'' sample_client_in
          (sample_world [answer 200 (JObj [(''securityDetails'', JObj [])])]))
     = Inl (RuntimeError ''Unable to get float value for stock price.'')
 \<and> fst (get_stock_price sample_runtime sample_endpoints ''AAPL'' sample_client_in
          (sample_world [answer 200 (JObj [(''securityDetails'', JObj [(''lastPrice'', JStr ''123.45'')])])]))
     = Inr (2469 / 20)"
  by (simp add: accessor_defs model_defs sample_defs sample_client_in_simps decimal_of_str_sample)

text \<open>
  C8. Let a client hold a cookie jar (a dict, so its keys are distinct), let
  \<^verbatim>\<open>_save_credentials\<close> succeed on it, and let \<^verbatim>\<open>pickle.load\<close> give back the object that
  \<^verbatim>\<open>pickle.dump\<close> wrote into the file, which can be read. Then a client constructed with
  the same file name and directory, as well as \<^verbatim>\<open>_load_credentials\<close> on any client with
  that file name, that directory and an empty jar, holds the very cookie jar that was
  saved (every cookie with all its attributes, in the same order), and its requests go
  out with it.
\<close>

theorem credentials_round_trip:
  assumes "pickle_loads rt (pickle_dumps rt (PDict [(''cookies'', PJar (cookies (session c)))]))
             = Some (PDict [(''cookies'', PJar (cookies (session c)))])"
    and "distinct (map fst (cookies (session c)))"
    and "save_credentials rt c w = (Inr (), c', w')"
    and "\<not> denied w' (OpenRead (cred_path c))"
  shows "cookies (session (Plynk rt user pw (filename c) (path c) purl pauth dbg w')) = cookies (session c)
       \<and> (\<forall>d. filename d = filename c \<and> path d = path c \<and> cookies (session d) = [] \<longrightarrow>
              cookies (session (load_credentials rt w' d)) = cookies (session c))
       \<and> cookies (via_session (log_entry m u hs p ps t
              (Plynk rt user pw (filename c) (path c) purl pauth dbg w') w'')) = cookies (session c)"
proof -
  have fl: "files w' (cred_path c) = Some (pickle_dumps rt (PDict [(''cookies'', PJar (cookies (session c)))]))"
    using save_credentials_effect(6) [OF assms(3), of "()"] by simp
  have up: "dict_update [] (cookies (session c)) = cookies (session c)"
    using dict_update_distinct [of "[]" "cookies (session c)"] assms(2) by simp
  have ld: "cookies (session (load_credentials rt w' d)) = cookies (session c)"
    if "filename d = filename c" "path d = path c" "cookies (session d) = []" for d :: "'a plynk"
  proof -
    have "cred_path d = cred_path c" using that by (simp add: cred_path_def)
    then show ?thesis
      using fl assms(1,4) that(3) up by (simp add: load_credentials_def os_exists_def os_read_def)
  qed
  have pl: "cookies (session (Plynk rt user pw (filename c) (path c) purl pauth dbg w')) = cookies (session c)"
    unfolding Plynk_def by (rule ld) (simp_all add: cookies_make_session)
  show ?thesis using ld pl by (simp add: log_entry_def)
qed

theorem credentials_round_trip_witness:
  "cookies (session cached_client) = [(''.digital.test'', [(''/'', [(''SESSION'', sample_cookie)])])]
 \<and> fst (save_credentials text_runtime cached_client text_world) = Inr ()
 \<and> files (snd (snd (save_credentials text_runtime cached_client text_world))) ''./plynk_credentials.pkl''
     = Some ''dict;1;cookies;jar;1;.digital.test;1;/;1;SESSION;SESSION;abc123;.digital.test;/;1893456000;T;T;''
 \<and> cookies (session (Plynk text_runtime ''bob'' ''hunter2'' ''plynk_credentials.pkl'' None None None True
        (snd (snd (save_credentials text_runtime cached_client text_world)))))
     = [(''.digital.test'', [(''/'', [(''SESSION'', sample_cookie)])])]"
proof -
  let ?s = "save_credentials text_runtime cached_client text_world"
  have f: "filename cached_client = ''plynk_credentials.pkl''" "path cached_client = None"
    "cookies (session cached_client) = sample_jar"
    by (simp_all add: cached_client_simps)
  have rt: "pickle_dumps text_runtime = text_dumps" "pickle_loads text_runtime = text_loads"
    by (simp_all add: text_runtime_def)
  have h1: "pickle_loads text_runtime
              (pickle_dumps text_runtime (PDict [(''cookies'', PJar (cookies (session cached_client)))]))
            = Some (PDict [(''cookies'', PJar (cookies (session cached_client)))])"
    unfolding rt f text_dumps_sample text_loads_sample ..
  have h2: "distinct (map fst (cookies (session cached_client)))"
    unfolding f by (simp add: sample_jar_simps)
  have ev: "fst ?s = Inr ()
      \<and> files (snd (snd ?s)) ''./plynk_credentials.pkl''
           = Some (text_dumps (PDict [(''cookies'', PJar sample_jar)]))
      \<and> \<not> denied (snd (snd ?s)) (OpenRead (cred_path cached_client))"
    by (simp add: save_credentials_def os_write_def os_exists_def is_dir_def sample_paths cred_path_def
        path_join_def cached_client_simps text_world_def text_runtime_def)
  have h3: "?s = (Inr (), fst (snd ?s), snd (snd ?s))"
    using ev by (simp add: prod_eq_iff)
  have h4: "\<not> denied (snd (snd ?s)) (OpenRead (cred_path cached_client))"
    using ev by simp
  have "cookies (session (Plynk text_runtime ''bob'' ''hunter2'' (filename cached_client)
            (path cached_client) None None True (snd (snd ?s)))) = cookies (session cached_client)"
    by (rule credentials_round_trip [OF h1 h2 h3 h4, THEN conjunct1])
  then show ?thesis using ev unfolding f text_dumps_sample by (simp add: sample_jar_simps)
qed

text \<open>
  C10. \<^verbatim>\<open>login\<close> sets \<open>logged_in\<close> before it fetches the account number, on both paths:
  when the fetch raises, \<^verbatim>\<open>login\<close> raises the same exception and \<open>logged_in\<close> is true
  afterwards. On the session-reuse path the files are untouched; on the fresh-login
  path the files are as \<^verbatim>\<open>_clear_credentials\<close> left them, so the cache file is absent.
\<close>

theorem login_not_atomic:
  "(verify_login ep c w = (True, c1, w1) \<and> fst (fetch_account_number ep c1 w1) = Inl e \<longrightarrow>
      fst (login rt ep c w) = Inl e \<and> logged_in (fst (snd (login rt ep c w)))
      \<and> files (snd (snd (login rt ep c w))) = files w)
 \<and> (verify_login ep c w = (False, c1, w1) \<and> clear_credentials c1 w1 = (Inr (), c2, w2)
      \<and> login_handshake ep c2 w2 = (Inr (JStr ''Session Created''), c3, w3)
      \<and> fst (fetch_account_number ep c3 w3) = Inl e \<longrightarrow>
      fst (login rt ep c w) = Inl e \<and> logged_in (fst (snd (login rt ep c w)))
      \<and> files (snd (snd (login rt ep c w))) (cred_path c) = None
      \<and> files (snd (snd (login rt ep c w))) = files w2)"
proof (intro conjI impI)
  assume a: "verify_login ep c w = (True, c1, w1) \<and> fst (fetch_account_number ep c1 w1) = Inl e"
  obtain c2' w2' where f: "fetch_account_number ep c1 w1 = (Inl e, c2', w2')"
    using a by (cases "fetch_account_number ep c1 w1") auto
  have l: "login rt ep c w = (Inl e, c2'\<lparr>logged_in := True\<rparr>, w2')"
    using a f by (simp add: login_def fetch_account_number_logged_in)
  show "fst (login rt ep c w) = Inl e" "logged_in (fst (snd (login rt ep c w)))"
    "files (snd (snd (login rt ep c w))) = files w"
    using l fetch_account_number_effect(2) [OF f] verify_login_effect(2) [of ep c w True c1 w1] a
    by simp_all
next
  assume a: "verify_login ep c w = (False, c1, w1) \<and> clear_credentials c1 w1 = (Inr (), c2, w2)
      \<and> login_handshake ep c2 w2 = (Inr (JStr ''Session Created''), c3, w3)
      \<and> fst (fetch_account_number ep c3 w3) = Inl e"
  obtain c4 w4 where f: "fetch_account_number ep c3 w3 = (Inl e, c4, w4)"
    using a by (cases "fetch_account_number ep c3 w3") auto
  have l: "login rt ep c w = (Inl e, c4\<lparr>logged_in := True\<rparr>, w4)"
    using a f by (simp add: login_def login_branch_def fetch_account_number_logged_in)
  have p: "cred_path c1 = cred_path c"
    using a verify_login_effect(8,9) [of ep c w False c1 w1] by (simp add: cred_path_def)
  have fl: "files w4 = files w2"
    using fetch_account_number_effect(2) [OF f] a login_handshake_effect(1) [of ep c2 w2 _ c3 w3]
    by simp
  have "files w2 (cred_path c1) = None"
    using a clear_credentials_ok(1) [of c1 w1 "()" c2 w2] by simp
  then show "fst (login rt ep c w) = Inl e" "logged_in (fst (snd (login rt ep c w)))"
    "files (snd (snd (login rt ep c w))) (cred_path c) = None"
    "files (snd (snd (login rt ep c w))) = files w2"
    using l fl p by simp_all
qed

theorem login_not_atomic_witness:
  "fst (verify_login sample_endpoints sample_client (sample_world script_reuse_fetch_fails))
 \<and> fst (login sample_runtime sample_endpoints sample_client (sample_world script_reuse_fetch_fails))
     = Inl (RuntimeError (''Could not parse account number from details response: '' @ quoted ''user''))
 \<and> logged_in (fst (snd (login sample_runtime sample_endpoints sample_client
        (sample_world script_reuse_fetch_fails))))
 \<and> \<not> fst (verify_login sample_endpoints cached_client
        (cached_world (script_fresh ''Session Created'' (JObj []))))
 \<and> fst (login sample_runtime sample_endpoints cached_client
        (cached_world (script_fresh ''Session Created'' (JObj []))))
     = Inl (RuntimeError (''Could not parse account number from details response: '' @ quoted ''user''))
 \<and> logged_in (fst (snd (login sample_runtime sample_endpoints cached_client
        (cached_world (script_fresh ''Session Created'' (JObj []))))))
 \<and> files (snd (snd (login sample_runtime sample_endpoints cached_client
        (cached_world (script_fresh ''Session Created'' (JObj [])))))) (cred_path cached_client) = None"
proof -
  let ?E = sample_endpoints
  let ?e = "RuntimeError (''Could not parse account number from details response: '' @ quoted ''user'')"
  let ?W1 = "sample_world script_reuse_fetch_fails"
  let ?v1 = "verify_login ?E sample_client ?W1"
  let ?l1 = "login sample_runtime ?E sample_client ?W1"
  have a1: "?v1 = (True, fst (snd ?v1), snd (snd ?v1))" by (simp add: model_defs sample_defs)
  have a2: "fst (fetch_account_number ?E (fst (snd ?v1)) (snd (snd ?v1))) = Inl ?e"
    by (simp add: model_defs sample_defs)
  have reuse: "fst ?l1 = Inl ?e \<and> logged_in (fst (snd ?l1)) \<and> files (snd (snd ?l1)) = files ?W1"
    using login_not_atomic [THEN conjunct1, rule_format, OF conjI, OF a1 a2] .
  let ?W2 = "cached_world (script_fresh ''Session Created'' (JObj []))"
  let ?v2 = "verify_login ?E cached_client ?W2"
  let ?k2 = "clear_credentials (fst (snd ?v2)) (snd (snd ?v2))"
  let ?h2 = "login_handshake ?E (fst (snd ?k2)) (snd (snd ?k2))"
  let ?l2 = "login sample_runtime ?E cached_client ?W2"
  have b1: "?v2 = (False, fst (snd ?v2), snd (snd ?v2))" by (simp add: model_defs sample_defs)
  have b2: "?k2 = (Inr (), fst (snd ?k2), snd (snd ?k2))" by (simp add: model_defs sample_defs)
  have b3: "?h2 = (Inr (JStr ''Session Created''), fst (snd ?h2), snd (snd ?h2))"
    by (simp add: model_defs sample_defs)
  have b4: "fst (fetch_account_number ?E (fst (snd ?h2)) (snd (snd ?h2))) = Inl ?e"
    by (simp add: model_defs sample_defs)
  have b: "verify_login ?E cached_client ?W2 = (False, fst (snd ?v2), snd (snd ?v2))
      \<and> clear_credentials (fst (snd ?v2)) (snd (snd ?v2)) = (Inr (), fst (snd ?k2), snd (snd ?k2))
      \<and> login_handshake ?E (fst (snd ?k2)) (snd (snd ?k2))
          = (Inr (JStr ''Session Created''), fst (snd ?h2), snd (snd ?h2))
      \<and> fst (fetch_account_number ?E (fst (snd ?h2)) (snd (snd ?h2))) = Inl ?e"
    using b1 b2 b3 b4 by blast
  have fresh: "fst ?l2 = Inl ?e \<and> logged_in (fst (snd ?l2))
      \<and> files (snd (snd ?l2)) (cred_path cached_client) = None
      \<and> files (snd (snd ?l2)) = files (snd (snd ?k2))"
    using login_not_atomic [THEN conjunct2, rule_format, OF b] .
  have v1: "fst ?v1" using a1 by (metis fst_conv)
  have v2: "\<not> fst ?v2" using b1 by (metis fst_conv)
  show ?thesis using reuse fresh v1 v2 by blast
qed

end
